theory Spec2Isabelle
  imports Complex_Main
begin

section \<open>Numbers\<close>

text \<open>
  The services compute with JavaScript numbers. They are modelled by the reals: the
  embedding is exact on the finite values and models no rounding, so an equation of the
  model is an equation "within floating-point tolerance" of the program. HOL's division
  by zero is 0, JavaScript's is NaN or an infinity; every division of the source whose
  divisor can be zero goes through \<open>js_div\<close>, where \<open>None\<close> stands for the non-finite
  result.
\<close>

definition js_div :: "real \<Rightarrow> real \<Rightarrow> real option" where
  "js_div a b = (if b = 0 then None else Some (a / b))"

definition js_percent :: "real \<Rightarrow> real \<Rightarrow> real option" where
  \<comment> \<open>\<open>(a / b) * 100\<close>\<close>
  "js_percent a b = map_option (\<lambda>q. q * 100) (js_div a b)"

section \<open>Shared type definitions (types/index.ts)\<close>

datatype SignalDirection = LONG | SHORT | NEUTRAL

datatype TradeOutcome = win | loss | breakeven

datatype TradeExitReason =
  take_profit | stop_loss | trailing_stop | structure_break | manual | regime_change

record TradingConfig =
  symbols :: "string list"
  interval :: string
  initialCapital :: real
  maxPositionPercent :: real
  maxOpenPositions :: real
  commissionRate :: real
  cooldownCandles :: real
  riskPerTradePercent :: real
  trailingStopActivation :: real
  trailingStopDistance :: real

definition DEFAULT_CONFIG :: TradingConfig where
  "DEFAULT_CONFIG =
     \<lparr> symbols = [''BTCUSDT'', ''ETHUSDT'', ''SOLUSDT'', ''XRPUSDT'', ''BNBUSDT'',
                   ''DOGEUSDT'', ''AVAXUSDT'', ''ADAUSDT'', ''LINKUSDT'', ''MATICUSDT''],
       interval = ''5m'',
       initialCapital = 10000,
       maxPositionPercent = 15 / 100,
       maxOpenPositions = 12,
       commissionRate = 1 / 1000,
       cooldownCandles = 0,
       riskPerTradePercent = 2 / 100,
       trailingStopActivation = 8 / 1000,
       trailingStopDistance = 5 / 1000 \<rparr>"

datatype SignalStrength = weak | moderate | strong

datatype VolatilityRegime = low | normal | high | extreme

datatype TrendRegime = strong_up | up | neutral | down | strong_down

datatype MarketDecision = TRADE_ALLOWED | WAIT | DANGER

text \<open>
  The field names of the records carry a prefix where the source's interfaces share
  them (\<open>symbol\<close>, \<open>timestamp\<close>, \<open>entryPrice\<close>, ...).
\<close>

record Candle =
  c_symbol :: string
  c_interval :: string
  c_openTime :: int
  c_closeTime :: int
  c_open :: real
  c_high :: real
  c_low :: real
  c_close :: real
  c_volume :: real
  c_isClosed :: bool

record Indicators =
  ind_symbol :: string
  ind_timestamp :: int
  ema9 :: real
  ema21 :: real
  ema50 :: real
  rsi14 :: real
  atr14 :: real
  atrPercent :: real
  adx14 :: real
  volumeSma20 :: real
  volumeRatio :: real
  lastSwingHigh :: real
  lastSwingLow :: real

record RegimeState =
  reg_symbol :: string
  reg_timestamp :: int
  volatility :: VolatilityRegime
  trend :: TrendRegime
  decision :: MarketDecision
  fearGreedIndex :: real
  fearGreedLabel :: string
  reg_reason :: string

record TradeSignal =
  sig_id :: string
  sig_symbol :: string
  sig_timestamp :: int
  sig_direction :: SignalDirection
  sig_strength :: SignalStrength
  sig_entryPrice :: real
  sig_stopLoss :: real
  sig_takeProfit :: real
  sig_riskRewardRatio :: "real option"
  sig_reason :: string
  sig_indicators :: Indicators
  sig_regime :: RegimeState

record Position =
  pos_id :: string
  pos_symbol :: string
  pos_direction :: SignalDirection
  pos_entryPrice :: real
  pos_currentPrice :: real
  pos_quantity :: real
  pos_entryTime :: int
  pos_stopLoss :: real
  pos_takeProfit :: real
  pos_unrealizedPnL :: real
  pos_unrealizedPnLPercent :: "real option"
  pos_signalId :: string

record ClosedTrade =
  ct_id :: string
  ct_symbol :: string
  ct_direction :: SignalDirection
  ct_entryPrice :: real
  ct_exitPrice :: real
  ct_quantity :: real
  ct_entryTime :: int
  ct_exitTime :: int
  ct_pnl :: real
  ct_pnlPercent :: "real option"
  ct_commission :: real
  ct_outcome :: TradeOutcome
  ct_exitReason :: TradeExitReason
  ct_signalId :: string

section \<open>PortfolioService\<close>

text \<open>
  The position map is a JavaScript \<open>Map\<close> keyed by the position id: the list of its
  values in insertion order. \<open>Date.now()\<close> and \<open>randomUUID()\<close> are arguments.
\<close>

record PortfolioService =
  config :: TradingConfig
  totalEquity :: real
  availableCash :: real
  positions :: "Position list"
  closedTrades :: "ClosedTrade list"

definition new_PortfolioService :: "TradingConfig \<Rightarrow> PortfolioService" where
  "new_PortfolioService cfg =
     \<lparr> config = cfg, totalEquity = initialCapital cfg, availableCash = initialCapital cfg,
       positions = [], closedTrades = [] \<rparr>"

fun positions_set :: "Position list \<Rightarrow> Position \<Rightarrow> Position list" where
  "positions_set [] p = [p]"
| "positions_set (q # qs) p =
     (if pos_id q = pos_id p then p # qs else q # positions_set qs p)"

definition positions_delete :: "Position list \<Rightarrow> string \<Rightarrow> Position list" where
  "positions_delete ps k = filter (\<lambda>p. \<not> (pos_id p = k)) ps"

definition getPositionsValue :: "Position list \<Rightarrow> real" where
  "getPositionsValue ps = foldl (\<lambda>sum pos. sum + pos_quantity pos * pos_currentPrice pos) 0 ps"

definition canOpenPosition :: "PortfolioService \<Rightarrow> string \<Rightarrow> bool" where
  "canOpenPosition s symbol =
     (if real (length (positions s)) \<ge> maxOpenPositions (config s) then False
      else if availableCash s < totalEquity s * (1 / 10) then False
      else True)"

text \<open>
  \<open>calculatePositionSize\<close>. With \<open>entryPrice = 0\<close> the source's \<open>maxQuantity\<close> is
  \<open>+Infinity\<close>, \<open>NaN\<close> or \<open>-Infinity\<close> as \<open>maxPositionValue\<close> is positive, zero or
  negative; \<open>quantity > maxQuantity\<close> is false in the first two cases, and in the third
  the result is \<open>-Infinity\<close>, which is \<open>None\<close> here.
\<close>

definition calculatePositionSize ::
    "PortfolioService \<Rightarrow> real \<Rightarrow> real \<Rightarrow> SignalDirection \<Rightarrow> real option" where
  "calculatePositionSize s entryPrice stopLoss direction =
     (let riskAmount = totalEquity s * riskPerTradePercent (config s);
          stopDistance = \<bar>entryPrice - stopLoss\<bar>
      in if stopDistance = 0 then Some 0
         else
           let quantity = riskAmount / stopDistance;
               maxPositionValue = totalEquity s * maxPositionPercent (config s)
           in case js_div maxPositionValue entryPrice of
                Some maxQuantity \<Rightarrow>
                  Some (if quantity > maxQuantity then maxQuantity else quantity)
              | None \<Rightarrow> if maxPositionValue < 0 then None else Some quantity)"

datatype model_limit = NonFinite

text \<open>
  \<open>openPosition\<close> returns the new position, or \<open>None\<close> for the source's \<open>null\<close>,
  with the portfolio after the call. \<open>Inl NonFinite\<close>: the computed size is not a finite
  number, and the call is outside the model.
\<close>

definition openPosition ::
    "PortfolioService \<Rightarrow> TradeSignal \<Rightarrow> real \<Rightarrow> string \<Rightarrow> int
      \<Rightarrow> model_limit + (Position option \<times> PortfolioService)" where
  "openPosition s signal currentPrice uuid now =
     (if \<not> canOpenPosition s (sig_symbol signal) then Inr (None, s)
      else if sig_direction signal = NEUTRAL then Inr (None, s)
      else case calculatePositionSize s (sig_entryPrice signal) (sig_stopLoss signal)
                  (sig_direction signal) of
          None \<Rightarrow> Inl NonFinite
        | Some positionSize \<Rightarrow>
            if positionSize = 0 then Inr (None, s)
            else
              let positionValue = positionSize * currentPrice;
                  entryCommission = positionValue * commissionRate (config s);
                  totalCost = positionValue + entryCommission
              in if totalCost > availableCash s then Inr (None, s)
                 else
                   let position =
                         \<lparr> pos_id = uuid,
                           pos_symbol = sig_symbol signal,
                           pos_direction = sig_direction signal,
                           pos_entryPrice = currentPrice,
                           pos_currentPrice = currentPrice,
                           pos_quantity = positionSize,
                           pos_entryTime = now,
                           pos_stopLoss = sig_stopLoss signal,
                           pos_takeProfit = sig_takeProfit signal,
                           pos_unrealizedPnL = - entryCommission,
                           pos_unrealizedPnLPercent = js_percent (- entryCommission) positionValue,
                           pos_signalId = sig_id signal \<rparr>
                   in Inr (Some position,
                           s\<lparr> positions := positions_set (positions s) position,
                              availableCash := availableCash s - totalCost \<rparr>))"

definition closePosition ::
    "PortfolioService \<Rightarrow> string \<Rightarrow> real \<Rightarrow> TradeExitReason \<Rightarrow> int
      \<Rightarrow> ClosedTrade option \<times> PortfolioService" where
  "closePosition s positionId exitPrice exitReason now =
     (case find (\<lambda>p. pos_id p = positionId) (positions s) of
        None \<Rightarrow> (None, s)
      | Some position \<Rightarrow>
          let positionValue = pos_quantity position * pos_entryPrice position;
              exitValue = pos_quantity position * exitPrice;
              grossPnL = (if pos_direction position = LONG then exitValue - positionValue
                          else positionValue - exitValue);
              entryCommission = positionValue * commissionRate (config s);
              exitCommission = exitValue * commissionRate (config s);
              totalCommission = entryCommission + exitCommission;
              netPnL = grossPnL - totalCommission;
              pnlPercent = js_percent netPnL positionValue;
              outcome = (if netPnL > 0 then win else if netPnL < 0 then loss else breakeven);
              closedTrade =
                \<lparr> ct_id = pos_id position,
                  ct_symbol = pos_symbol position,
                  ct_direction = pos_direction position,
                  ct_entryPrice = pos_entryPrice position,
                  ct_exitPrice = exitPrice,
                  ct_quantity = pos_quantity position,
                  ct_entryTime = pos_entryTime position,
                  ct_exitTime = now,
                  ct_pnl = netPnL,
                  ct_pnlPercent = pnlPercent,
                  ct_commission = totalCommission,
                  ct_outcome = outcome,
                  ct_exitReason = exitReason,
                  ct_signalId = pos_signalId position \<rparr>;
              positions' = positions_delete (positions s) (pos_id position);
              availableCash' = availableCash s + (exitValue - exitCommission)
          in (Some closedTrade,
              s\<lparr> positions := positions',
                 availableCash := availableCash',
                 totalEquity := availableCash' + getPositionsValue positions',
                 closedTrades := closedTrades s @ [closedTrade] \<rparr>))"

text \<open>
  \<open>updatePositions\<close>: \<open>prices\<close> is a \<open>Record<string, number>\<close>; a symbol with no
  price, or with price 0, is skipped (\<open>if (!currentPrice) continue\<close>).
\<close>

definition updatePosition :: "TradingConfig \<Rightarrow> (string \<rightharpoonup> real) \<Rightarrow> Position \<Rightarrow> Position" where
  "updatePosition cfg prices position =
     (case prices (pos_symbol position) of
        None \<Rightarrow> position
      | Some currentPrice \<Rightarrow>
          if currentPrice = 0 then position
          else
            let positionValue = pos_quantity position * pos_entryPrice position;
                currentValue = pos_quantity position * currentPrice;
                grossPnL = (if pos_direction position = LONG then currentValue - positionValue
                            else positionValue - currentValue);
                entryCommission = positionValue * commissionRate cfg
            in position\<lparr> pos_currentPrice := currentPrice,
                          pos_unrealizedPnL := grossPnL - entryCommission,
                          pos_unrealizedPnLPercent :=
                            js_percent (grossPnL - entryCommission) positionValue \<rparr>)"

definition updatePositions :: "PortfolioService \<Rightarrow> (string \<rightharpoonup> real) \<Rightarrow> PortfolioService" where
  "updatePositions s prices =
     (let ps = map (updatePosition (config s) prices) (positions s)
      in s\<lparr> positions := ps, totalEquity := availableCash s + getPositionsValue ps \<rparr>)"

definition getOpenPositions :: "PortfolioService \<Rightarrow> Position list" where
  "getOpenPositions s = positions s"

section \<open>TraderService\<close>

record TrailingStopState =
  isActive :: bool
  activationPrice :: real
  highestPrice :: real
  lowestPrice :: real
  currentStop :: real

record TraderService =
  portfolio :: PortfolioService
  tr_config :: TradingConfig
  trailingStops :: "string \<rightharpoonup> TrailingStopState"

definition new_TraderService :: "PortfolioService \<Rightarrow> TradingConfig \<Rightarrow> TraderService" where
  "new_TraderService p cfg = \<lparr> portfolio = p, tr_config = cfg, trailingStops = Map.empty \<rparr>"

definition executeTrade ::
    "TraderService \<Rightarrow> TradeSignal \<Rightarrow> real \<Rightarrow> string \<Rightarrow> int
      \<Rightarrow> model_limit + (Position option \<times> TraderService)" where
  "executeTrade t signal currentPrice uuid now =
     (case openPosition (portfolio t) signal currentPrice uuid now of
        Inl e \<Rightarrow> Inl e
      | Inr (None, p') \<Rightarrow> Inr (None, t\<lparr> portfolio := p' \<rparr>)
      | Inr (Some position, p') \<Rightarrow>
          Inr (Some position,
               t\<lparr> portfolio := p',
                  trailingStops := (trailingStops t)(pos_id position \<mapsto>
                    \<lparr> isActive = False,
                      activationPrice = 0,
                      highestPrice = currentPrice,
                      lowestPrice = currentPrice,
                      currentStop = pos_stopLoss position \<rparr>) \<rparr>))"

text \<open>
  \<open>a / b > c\<close> on finite numbers: with \<open>b = 0\<close> the quotient is \<open>+Infinity\<close>, \<open>NaN\<close> or
  \<open>-Infinity\<close> as \<open>a\<close> is positive, zero or negative, and only the first is greater
  than \<open>c\<close>.
\<close>

definition js_div_gt :: "real \<Rightarrow> real \<Rightarrow> real \<Rightarrow> bool" where
  "js_div_gt a b c = (if b = 0 then a > 0 else a / b > c)"

text \<open>
  The body of \<open>updateTrailingStop\<close> once the trailing state of the position is found:
  the state it leaves in the map.
\<close>

definition trailingStop_update ::
    "TradingConfig \<Rightarrow> Position \<Rightarrow> real \<Rightarrow> TrailingStopState \<Rightarrow> TrailingStopState" where
  "trailingStop_update cfg position currentPrice trailingState =
     (let positionValue = pos_quantity position * pos_entryPrice position;
          grossPnL = (if pos_direction position = LONG
                      then pos_quantity position * currentPrice - positionValue
                      else positionValue - pos_quantity position * currentPrice);
          ts1 = (if \<not> isActive trailingState
                    \<and> js_div_gt grossPnL positionValue (trailingStopActivation cfg)
                 then trailingState\<lparr> isActive := True, activationPrice := currentPrice \<rparr>
                 else trailingState)
      in if isActive ts1 then
           (if pos_direction position = LONG then
              (if currentPrice > highestPrice ts1 then
                 let ts2 = ts1\<lparr> highestPrice := currentPrice \<rparr>;
                     newStop = highestPrice ts2 * (1 - trailingStopDistance cfg)
                 in if newStop > currentStop ts2 then ts2\<lparr> currentStop := newStop \<rparr> else ts2
               else ts1)
            else
              (if currentPrice < lowestPrice ts1 then
                 let ts2 = ts1\<lparr> lowestPrice := currentPrice \<rparr>;
                     newStop = lowestPrice ts2 * (1 + trailingStopDistance cfg)
                 in if newStop < currentStop ts2 then ts2\<lparr> currentStop := newStop \<rparr> else ts2
               else ts1))
         else ts1)"

definition updateTrailingStop :: "TraderService \<Rightarrow> Position \<Rightarrow> real \<Rightarrow> TraderService" where
  "updateTrailingStop t position currentPrice =
     (case trailingStops t (pos_id position) of
        None \<Rightarrow> t
      | Some trailingState \<Rightarrow>
          t\<lparr> trailingStops := (trailingStops t)(pos_id position \<mapsto>
                trailingStop_update (tr_config t) position currentPrice trailingState) \<rparr>)"

definition checkExitConditions ::
    "Position \<Rightarrow> real \<Rightarrow> TrailingStopState \<Rightarrow> TradeExitReason option" where
  "checkExitConditions position currentPrice trailingState =
     (if pos_direction position = LONG then
        (if currentPrice \<ge> pos_takeProfit position then Some take_profit
         else if isActive trailingState \<and> currentPrice \<le> currentStop trailingState
           then Some trailing_stop
         else if currentPrice \<le> pos_stopLoss position then Some stop_loss
         else None)
      else
        (if currentPrice \<le> pos_takeProfit position then Some take_profit
         else if isActive trailingState \<and> currentPrice \<ge> currentStop trailingState
           then Some trailing_stop
         else if currentPrice \<ge> pos_stopLoss position then Some stop_loss
         else None))"

text \<open>
  \<open>checkExits\<close>: the loop runs over the array \<open>getOpenPositions\<close> returned before the
  first iteration; \<open>checkExits_step\<close> is one iteration, on the closed trades collected
  so far and the trader.
\<close>

definition checkExits_step ::
    "(string \<rightharpoonup> real) \<Rightarrow> int \<Rightarrow> ClosedTrade list \<times> TraderService \<Rightarrow> Position
      \<Rightarrow> ClosedTrade list \<times> TraderService" where
  "checkExits_step prices now acc position =
     (let closedTrades = fst acc; t = snd acc
      in case prices (pos_symbol position) of
           None \<Rightarrow> (closedTrades, t)
         | Some currentPrice \<Rightarrow>
             if currentPrice = 0 then (closedTrades, t)
             else
               let t1 = updateTrailingStop t position currentPrice
               in case trailingStops t1 (pos_id position) of
                    None \<Rightarrow> (closedTrades, t1)
                  | Some trailingState \<Rightarrow>
                      (case checkExitConditions position currentPrice trailingState of
                         None \<Rightarrow> (closedTrades, t1)
                       | Some exitReason \<Rightarrow>
                           (case closePosition (portfolio t1) (pos_id position) currentPrice
                                   exitReason now of
                              (None, p') \<Rightarrow> (closedTrades, t1\<lparr> portfolio := p' \<rparr>)
                            | (Some closedTrade, p') \<Rightarrow>
                                (closedTrades @ [closedTrade],
                                 t1\<lparr> portfolio := p',
                                     trailingStops :=
                                       (trailingStops t1)(pos_id position := None) \<rparr>))))"

definition checkExits ::
    "TraderService \<Rightarrow> (string \<rightharpoonup> real) \<Rightarrow> int \<Rightarrow> ClosedTrade list \<times> TraderService" where
  "checkExits t prices now =
     (let acc = foldl (checkExits_step prices now) ([], t) (getOpenPositions (portfolio t));
          t' = snd acc
      in (fst acc, t'\<lparr> portfolio := updatePositions (portfolio t') prices \<rparr>))"

section \<open>StrategyService (multi-signal)\<close>

record StrategyService =
  st_config :: TradingConfig
  lastSignalTime :: "string \<rightharpoonup> int"

definition new_StrategyService :: "TradingConfig \<Rightarrow> StrategyService" where
  "new_StrategyService cfg = \<lparr> st_config = cfg, lastSignalTime = Map.empty \<rparr>"

definition canTrade :: "StrategyService \<Rightarrow> string \<Rightarrow> Candle list \<Rightarrow> bool" where
  \<comment> \<open>Zero cooldown - always ready to trade\<close>
  "canTrade st symbol candles = True"

definition updateLastSignalTime ::
    "StrategyService \<Rightarrow> string \<Rightarrow> Candle list \<Rightarrow> StrategyService" where
  "updateLastSignalTime st symbol candles =
     st\<lparr> lastSignalTime := (lastSignalTime st)(symbol \<mapsto> c_openTime (last candles)) \<rparr>"

definition calculateStrength :: "Indicators \<Rightarrow> SignalStrength" where
  "calculateStrength indicators =
     (let emasAligned =
            ((ema9 indicators > ema21 indicators \<and> ema21 indicators > ema50 indicators)
             \<or> (ema9 indicators < ema21 indicators \<and> ema21 indicators < ema50 indicators))
      in if adx14 indicators > 25 \<and> volumeRatio indicators > 15 / 10 \<and> emasAligned then strong
         else if adx14 indicators > 15 \<or> volumeRatio indicators > 12 / 10 then moderate
         else weak)"

text \<open>
  \<open>createSignal\<close>: the id is \<open>randomUUID()\<close>, an argument here. The callers build
  \<open>reason\<close> from a fixed sentence and numbers printed by \<open>toFixed\<close>; the model keeps
  the sentence up to the first number.
\<close>

definition createSignal ::
    "string \<Rightarrow> string \<Rightarrow> Candle list \<Rightarrow> Indicators \<Rightarrow> RegimeState \<Rightarrow> SignalDirection
      \<Rightarrow> real \<Rightarrow> real \<Rightarrow> real option \<Rightarrow> string \<Rightarrow> TradeSignal" where
  "createSignal uuid symbol candles indicators regime direction stopLoss takeProfit rr reason =
     (let currentPrice = c_close (last candles);
          strength = calculateStrength indicators
      in \<lparr> sig_id = uuid,
           sig_symbol = symbol,
           sig_timestamp = c_closeTime (last candles),
           sig_direction = direction,
           sig_strength = strength,
           sig_entryPrice = currentPrice,
           sig_stopLoss = stopLoss,
           sig_takeProfit = takeProfit,
           sig_riskRewardRatio = rr,
           sig_reason = reason,
           sig_indicators = indicators,
           sig_regime = regime \<rparr>)"

definition checkEMACrossover ::
    "string \<Rightarrow> string \<Rightarrow> Candle list \<Rightarrow> Indicators \<Rightarrow> RegimeState \<Rightarrow> TradeSignal option" where
  "checkEMACrossover uuid symbol candles indicators regime =
     (if length candles < 3 then None
      else
        let currentPrice = c_close (last candles);
            prevCandle = candles ! (length candles - 2);
            prevClose = c_close prevCandle
        in if ema9 indicators > ema21 indicators \<and> prevClose < ema21 indicators
                \<and> currentPrice > ema21 indicators then
             let stopLoss = currentPrice - atr14 indicators * (15 / 10);
                 takeProfit = currentPrice + atr14 indicators * 3;
                 rr = js_div (takeProfit - currentPrice) (currentPrice - stopLoss)
             in Some (createSignal uuid symbol candles indicators regime LONG stopLoss
                        takeProfit rr ''EMA crossover bullish'')
           else if ema9 indicators < ema21 indicators \<and> prevClose > ema21 indicators
                \<and> currentPrice < ema21 indicators then
             let stopLoss = currentPrice + atr14 indicators * (15 / 10);
                 takeProfit = currentPrice - atr14 indicators * 3;
                 rr = js_div (currentPrice - takeProfit) (stopLoss - currentPrice)
             in Some (createSignal uuid symbol candles indicators regime SHORT stopLoss
                        takeProfit rr ''EMA crossover bearish'')
           else None)"

definition checkRSIReversal ::
    "string \<Rightarrow> string \<Rightarrow> Candle list \<Rightarrow> Indicators \<Rightarrow> RegimeState \<Rightarrow> TradeSignal option" where
  "checkRSIReversal uuid symbol candles indicators regime =
     (let currentPrice = c_close (last candles)
      in if rsi14 indicators < 48 then
           let stopLoss = currentPrice - atr14 indicators * (15 / 10);
               takeProfit = currentPrice + atr14 indicators * (25 / 10);
               rr = js_div (takeProfit - currentPrice) (currentPrice - stopLoss)
           in Some (createSignal uuid symbol candles indicators regime LONG stopLoss
                      takeProfit rr ''RSI oversold reversal'')
         else if rsi14 indicators > 52 then
           let stopLoss = currentPrice + atr14 indicators * (15 / 10);
               takeProfit = currentPrice - atr14 indicators * (25 / 10);
               rr = js_div (currentPrice - takeProfit) (stopLoss - currentPrice)
           in Some (createSignal uuid symbol candles indicators regime SHORT stopLoss
                      takeProfit rr ''RSI overbought reversal'')
         else None)"

text \<open>\<open>a || b\<close> on \<open>TradeSignal | null\<close>: the first signal that is not \<open>null\<close>.\<close>

definition or_else :: "'a option \<Rightarrow> 'a option \<Rightarrow> 'a option" where
  "or_else a b = (case a of Some x \<Rightarrow> Some x | None \<Rightarrow> b)"

datatype js_error = TypeError

text \<open>
  \<open>evaluate\<close>. Detectors 3 to 8 of the chain (\<open>checkMomentumBreakout\<close> to
  \<open>checkQuickScalp\<close>) read neither the configuration nor \<open>lastSignalTime\<close>; they are
  the argument \<open>later\<close>, a function of what they are passed. On an empty candle array
  \<open>candles[candles.length - 1].close\<close> throws.
\<close>

definition evaluate ::
    "StrategyService \<Rightarrow> string \<Rightarrow> (string \<Rightarrow> Candle list \<Rightarrow> Indicators \<Rightarrow> RegimeState \<Rightarrow> TradeSignal option)
      \<Rightarrow> string \<Rightarrow> Candle list \<Rightarrow> Indicators \<Rightarrow> RegimeState
      \<Rightarrow> js_error + (TradeSignal option \<times> StrategyService)" where
  "evaluate st uuid later symbol candles indicators regime =
     (if decision regime = DANGER then Inr (None, st)
      else if \<not> canTrade st symbol candles then Inr (None, st)
      else if candles = [] then Inl TypeError
      else
        let signal =
              or_else (checkEMACrossover uuid symbol candles indicators regime)
             (or_else (checkRSIReversal uuid symbol candles indicators regime)
                      (later symbol candles indicators regime))
        in case signal of
             Some sg \<Rightarrow> Inr (Some sg, updateLastSignalTime st symbol candles)
           | None \<Rightarrow> Inr (None, st))"

section \<open>BinanceService\<close>

text \<open>
  The service as a state machine: each handler of the source (a WebSocket event, a timer
  firing, a method call) runs to completion and is one function on the state. The
  registered candle callbacks belong to the callers; \<open>dispatched\<close> records, in order,
  each candle the service passed to them (\<open>candleCallbacks.forEach\<close>). The timer set by
  \<open>scheduleReconnect\<close> is \<open>reconnectTimer\<close> (its delay in ms), the interval set by
  \<open>startPollingFallback\<close> is \<open>pollingInterval\<close>.
\<close>

datatype ws_state = NoSocket | Connecting | Connected | Disconnected

record BinanceService =
  ws :: ws_state
  candleBuffers :: "string \<rightharpoonup> Candle list"
  dispatched :: "Candle list"
  reconnectAttempts :: nat
  isRunning :: bool
  reconnectTimer :: "nat option"
  pollingInterval :: bool

definition maxReconnectAttempts :: nat where
  "maxReconnectAttempts = 10"

definition baseReconnectDelay :: nat where
  "baseReconnectDelay = 1000"

definition bn_symbols :: "string list" where
  "bn_symbols = [''BTCUSDT'', ''ETHUSDT'']"

definition bn_interval :: string where
  "bn_interval = ''15m''"

definition bufferSize :: nat where
  "bufferSize = 200"

definition new_BinanceService :: BinanceService where
  "new_BinanceService =
     \<lparr> ws = NoSocket,
       candleBuffers = map_of (map (\<lambda>symbol. (symbol, [])) bn_symbols),
       dispatched = [],
       reconnectAttempts = 0,
       isRunning = False,
       reconnectTimer = None,
       pollingInterval = False \<rparr>"

definition get_buffer :: "BinanceService \<Rightarrow> string \<Rightarrow> Candle list" where
  \<comment> \<open>\<open>this.candleBuffers.get(symbol) || []\<close>\<close>
  "get_buffer s symbol = (case candleBuffers s symbol of None \<Rightarrow> [] | Some buffer \<Rightarrow> buffer)"

definition set_buffer :: "BinanceService \<Rightarrow> string \<Rightarrow> Candle list \<Rightarrow> BinanceService" where
  "set_buffer s symbol buffer = s\<lparr> candleBuffers := (candleBuffers s)(symbol \<mapsto> buffer) \<rparr>"

definition push_shift :: "Candle list \<Rightarrow> Candle \<Rightarrow> Candle list" where
  \<comment> \<open>\<open>buffer.push(candle); if (buffer.length > this.bufferSize) buffer.shift()\<close>\<close>
  "push_shift buffer candle =
     (let b = buffer @ [candle] in if length b > bufferSize then tl b else b)"

definition notify_callbacks :: "BinanceService \<Rightarrow> Candle \<Rightarrow> BinanceService" where
  "notify_callbacks s candle = s\<lparr> dispatched := dispatched s @ [candle] \<rparr>"

text \<open>
  \<open>handleKlineMessage\<close>, the push path, on the candle it builds from the message (the
  prices parsed).
\<close>

definition handleKlineMessage :: "BinanceService \<Rightarrow> Candle \<Rightarrow> BinanceService" where
  "handleKlineMessage s candle =
     (let buffer = get_buffer s (c_symbol candle)
      in if c_isClosed candle then
           (if find (\<lambda>c. c_openTime c = c_openTime candle) buffer = None then
              notify_callbacks (set_buffer s (c_symbol candle) (push_shift buffer candle)) candle
            else s)
         else
           (if buffer \<noteq> [] \<and> c_openTime (last buffer) = c_openTime candle then
              set_buffer s (c_symbol candle) (butlast buffer @ [candle])
            else set_buffer s (c_symbol candle) (push_shift buffer candle)))"

text \<open>
  The poll path. \<open>pollCandle\<close> is one iteration of the loop over the klines fetched for
  \<open>symbol\<close>; the array \<open>buffer\<close> it works on is the one stored in the map.
\<close>

definition pollCandle :: "BinanceService \<Rightarrow> string \<Rightarrow> Candle \<Rightarrow> BinanceService" where
  "pollCandle s symbol candle =
     (let buffer = get_buffer s symbol
      in if c_isClosed candle then
           (let exists = list_ex (\<lambda>c. c_openTime c = c_openTime candle) buffer
            in if \<not> exists then
                 notify_callbacks (set_buffer s symbol (push_shift buffer candle)) candle
               else s)
         else
           (if buffer \<noteq> [] \<and> c_openTime (last buffer) = c_openTime candle then
              set_buffer s symbol (butlast buffer @ [candle])
            else if \<not> list_ex (\<lambda>c. c_openTime c = c_openTime candle) buffer then
              set_buffer s symbol (push_shift buffer candle)
            else set_buffer s symbol buffer))"

record Kline =
  k_openTime :: int
  k_open :: real
  k_high :: real
  k_low :: real
  k_close :: real
  k_volume :: real
  k_closeTime :: int

datatype fetch_result = FetchThrows | HttpNotOk | Klines "Kline list"

definition poll_candle_of :: "string \<Rightarrow> int \<Rightarrow> Kline \<Rightarrow> Candle" where
  "poll_candle_of symbol now k =
     \<lparr> c_symbol = symbol,
       c_interval = bn_interval,
       c_openTime = k_openTime k,
       c_closeTime = k_closeTime k,
       c_open = k_open k,
       c_high = k_high k,
       c_low = k_low k,
       c_close = k_close k,
       c_volume = k_volume k,
       c_isClosed = (now > k_closeTime k) \<rparr>"

definition pollSymbol :: "BinanceService \<Rightarrow> int \<Rightarrow> string \<Rightarrow> fetch_result \<Rightarrow> BinanceService" where
  "pollSymbol s now symbol response =
     (case response of
        FetchThrows \<Rightarrow> s
      | HttpNotOk \<Rightarrow> s
      | Klines data \<Rightarrow> foldl (\<lambda>s k. pollCandle s symbol (poll_candle_of symbol now k)) s data)"

text \<open>
  One firing of the polling interval; \<open>fetch\<close> gives the response of the REST call for
  each symbol. An interval that was cleared does not fire. The callback awaits the
  response of each symbol, and other handlers can run meanwhile; what it does with one
  response, \<open>pollSymbol\<close>, runs to completion.
\<close>

definition pollTick :: "BinanceService \<Rightarrow> int \<Rightarrow> (string \<Rightarrow> fetch_result) \<Rightarrow> BinanceService" where
  "pollTick s now fetch =
     (if \<not> pollingInterval s then s
      else if \<not> isRunning s then s\<lparr> pollingInterval := False \<rparr>
      else foldl (\<lambda>s symbol. pollSymbol s now symbol (fetch symbol)) s bn_symbols)"

definition connectWebSocket :: "BinanceService \<Rightarrow> BinanceService" where
  "connectWebSocket s = s\<lparr> ws := Connecting \<rparr>"

definition startPollingFallback :: "BinanceService \<Rightarrow> BinanceService" where
  "startPollingFallback s = s\<lparr> pollingInterval := True \<rparr>"

definition on_open :: "BinanceService \<Rightarrow> BinanceService" where
  "on_open s = s\<lparr> ws := Connected, reconnectAttempts := 0 \<rparr>"

definition scheduleReconnect :: "BinanceService \<Rightarrow> BinanceService" where
  "scheduleReconnect s =
     (if reconnectAttempts s \<ge> maxReconnectAttempts then s\<lparr> isRunning := False \<rparr>
      else
        let attempts = reconnectAttempts s + 1;
            delay = min (baseReconnectDelay * 2 ^ (attempts - 1)) 30000
        in s\<lparr> reconnectAttempts := attempts, reconnectTimer := Some delay \<rparr>)"

definition on_close :: "BinanceService \<Rightarrow> BinanceService" where
  "on_close s =
     (let s1 = s\<lparr> ws := Disconnected \<rparr>
      in if isRunning s1 then scheduleReconnect s1 else s1)"

definition reconnectTimer_fires :: "BinanceService \<Rightarrow> BinanceService" where
  "reconnectTimer_fires s =
     (case reconnectTimer s of
        None \<Rightarrow> s
      | Some delay \<Rightarrow>
          let s1 = s\<lparr> reconnectTimer := None \<rparr>
          in if isRunning s1 then connectWebSocket s1 else s1)"

definition stop :: "BinanceService \<Rightarrow> BinanceService" where
  "stop s =
     (if \<not> isRunning s then s
      else s\<lparr> isRunning := False, pollingInterval := False, ws := NoSocket \<rparr>)"

text \<open>
  \<open>start\<close>: \<open>historical\<close> gives, for each symbol, the candles of the historical fetch
  that succeeded, or \<open>None\<close> when all its attempts failed.
\<close>

definition start :: "BinanceService \<Rightarrow> (string \<Rightarrow> Candle list option) \<Rightarrow> BinanceService" where
  "start s historical =
     (if isRunning s then s
      else
        let s1 = s\<lparr> isRunning := True \<rparr>;
            s2 = foldl (\<lambda>s symbol. case historical symbol of
                                      None \<Rightarrow> s
                                    | Some candles \<Rightarrow> set_buffer s symbol candles) s1 bn_symbols
        in startPollingFallback (connectWebSocket s2))"

section \<open>LLMFilterService\<close>

record NewsItem =
  title :: string
  source :: string
  url :: string
  publishedAt :: string
  sentiment :: string

record LLMFilterResult =
  lr_signalId :: string
  lr_decision :: string
  lr_confidence :: real
  lr_reasoning :: string
  lr_delayMinutes :: "real option"
  lr_newsContext :: "string list"
  lr_timestamp :: int

text \<open>
  \<open>evaluateSignal\<close> waits for its rate limit, builds the prompt, and enters a \<open>try\<close>
  block around the call to the API and the reading of its response.
  What the \<open>try\<close> block receives from outside: a thrown value is an
  \<open>Error\<close> with its message or something else. The call to the API throws or returns
  the content of the first choice (\<open>None\<close>: no choice, no message or no content). The
  parsed JSON is an object, read through the three fields the code validates and
  \<open>delayMinutes\<close> (\<open>None\<close>: absent or not of the type the code expects), or a value
  whose fields cannot be read; or \<open>JSON.parse\<close> throws.
\<close>

datatype thrown = Error string | NotAnError

datatype api_outcome = ApiThrows thrown | ApiContent "string option"

record LLMResponse =
  resp_decision :: "string option"
  resp_confidence :: "real option"
  resp_reasoning :: "string option"
  resp_delayMinutes :: "real option"

datatype parse_outcome = ParseThrows thrown | ParsedNull | Parsed LLMResponse

definition error_message :: "thrown \<Rightarrow> string" where
  \<comment> \<open>\<open>error instanceof Error ? error.message : 'Unknown error'\<close>\<close>
  "error_message e = (case e of Error m \<Rightarrow> m | NotAnError \<Rightarrow> ''Unknown error'')"

text \<open>
  The \<open>try\<close> block: the result it returns, or what it throws. A string is falsy
  when it is absent or empty; \<open>typeof confidence !== 'number'\<close> is \<open>None\<close> here.
\<close>

definition evaluateSignal_try ::
    "TradeSignal \<Rightarrow> NewsItem list \<Rightarrow> int \<Rightarrow> api_outcome \<Rightarrow> (string \<Rightarrow> parse_outcome)
      \<Rightarrow> thrown + LLMFilterResult" where
  "evaluateSignal_try signal news now completion json_parse =
     (case completion of
        ApiThrows e \<Rightarrow> Inl e
      | ApiContent None \<Rightarrow> Inl (Error ''Empty response from OpenAI'')
      | ApiContent (Some responseText) \<Rightarrow>
          if responseText = [] then Inl (Error ''Empty response from OpenAI'')
          else
            (case json_parse responseText of
               ParseThrows e \<Rightarrow> Inl e
             | ParsedNull \<Rightarrow> Inl (Error ''Cannot read properties of null'')
             | Parsed llmResponse \<Rightarrow>
                 (case (resp_decision llmResponse, resp_confidence llmResponse,
                        resp_reasoning llmResponse) of
                    (Some dec, Some conf, Some reas) \<Rightarrow>
                      if dec = [] \<or> reas = []
                      then Inl (Error ''Invalid LLM response structure'')
                      else
                        Inr \<lparr> lr_signalId = sig_id signal,
                              lr_decision = dec,
                              lr_confidence = max 0 (min 1 conf),
                              lr_reasoning = reas,
                              lr_delayMinutes = resp_delayMinutes llmResponse,
                              lr_newsContext = map title (take 10 news),
                              lr_timestamp = now \<rparr>
                  | _ \<Rightarrow> Inl (Error ''Invalid LLM response structure''))))"

definition evaluateSignal ::
    "TradeSignal \<Rightarrow> NewsItem list \<Rightarrow> int \<Rightarrow> api_outcome \<Rightarrow> (string \<Rightarrow> parse_outcome)
      \<Rightarrow> LLMFilterResult" where
  "evaluateSignal signal news now completion json_parse =
     (case evaluateSignal_try signal news now completion json_parse of
        Inr result \<Rightarrow> result
      | Inl error \<Rightarrow>
          \<lparr> lr_signalId = sig_id signal,
            lr_decision = ''APPROVE'',
            lr_confidence = 1 / 2,
            lr_reasoning = ''LLM evaluation failed: '' @ error_message error
                             @ ''. Proceeding with caution.'',
            lr_delayMinutes = None,
            lr_newsContext = map title (take 10 news),
            lr_timestamp = now \<rparr>)"

section \<open>TradingEngine: the approval step of onCandleClosed\<close>

text \<open>
  Step 10 of \<open>onCandleClosed\<close>: the trade is executed if and only if the decision of
  the LLM filter is \<open>APPROVE\<close>.
\<close>

definition execute_if_approved ::
    "TraderService \<Rightarrow> TradeSignal \<Rightarrow> real \<Rightarrow> string \<Rightarrow> int \<Rightarrow> LLMFilterResult
      \<Rightarrow> model_limit + (Position option \<times> TraderService)" where
  "execute_if_approved t signal currentPrice uuid now llmDecision =
     (if lr_decision llmDecision = ''APPROVE'' then executeTrade t signal currentPrice uuid now
      else Inr (None, t))"

section \<open>Runs and the rules of the specification\<close>

text \<open>The trailing stop of one position over a sequence of prices, oldest first.\<close>

definition trailing_run :: "TraderService \<Rightarrow> Position \<Rightarrow> real list \<Rightarrow> TraderService" where
  "trailing_run t position prices =
     foldl (\<lambda>t price. updateTrailingStop t position price) t prices"

text \<open>
  The exit rule as the specification words it: three conditions, checked in the order
  take-profit, trailing stop (only if trailing is active), static stop-loss; the first
  that matches gives the exit reason.
\<close>

definition takeProfit_hit :: "Position \<Rightarrow> real \<Rightarrow> bool" where
  "takeProfit_hit position price =
     (if pos_direction position = LONG then price \<ge> pos_takeProfit position
      else price \<le> pos_takeProfit position)"

definition trailingStop_hit :: "Position \<Rightarrow> real \<Rightarrow> TrailingStopState \<Rightarrow> bool" where
  "trailingStop_hit position price trailingState =
     (isActive trailingState \<and>
      (if pos_direction position = LONG then price \<le> currentStop trailingState
       else price \<ge> currentStop trailingState))"

definition stopLoss_hit :: "Position \<Rightarrow> real \<Rightarrow> bool" where
  "stopLoss_hit position price =
     (if pos_direction position = LONG then price \<le> pos_stopLoss position
      else price \<ge> pos_stopLoss position)"

fun first_match :: "(bool \<times> 'a) list \<Rightarrow> 'a option" where
  "first_match [] = None"
| "first_match ((c, r) # rest) = (if c then Some r else first_match rest)"

definition exit_priority :: "Position \<Rightarrow> real \<Rightarrow> TrailingStopState \<Rightarrow> TradeExitReason option" where
  "exit_priority position price trailingState =
     first_match [(takeProfit_hit position price, take_profit),
                  (trailingStop_hit position price trailingState, trailing_stop),
                  (stopLoss_hit position price, stop_loss)]"

text \<open>
  A sequence of portfolio mutations. An operation is well-formed when its prices are not
  negative: the entry price of the signal and the fill price of an opening, the prices of
  a mark-to-market, the exit price of a closing.
\<close>

datatype portfolio_op =
    Open TradeSignal real string int
  | Update "string \<rightharpoonup> real"
  | Close string real TradeExitReason int

fun apply_op :: "PortfolioService \<Rightarrow> portfolio_op \<Rightarrow> model_limit + PortfolioService" where
  "apply_op s (Open signal currentPrice uuid now) =
     (case openPosition s signal currentPrice uuid now of
        Inl e \<Rightarrow> Inl e
      | Inr r \<Rightarrow> Inr (snd r))"
| "apply_op s (Update prices) = Inr (updatePositions s prices)"
| "apply_op s (Close positionId exitPrice exitReason now) =
     Inr (snd (closePosition s positionId exitPrice exitReason now))"

fun run_ops :: "PortfolioService \<Rightarrow> portfolio_op list \<Rightarrow> model_limit + PortfolioService" where
  "run_ops s [] = Inr s"
| "run_ops s (op # ops) =
     (case apply_op s op of Inl e \<Rightarrow> Inl e | Inr s' \<Rightarrow> run_ops s' ops)"

fun wellformed_op :: "portfolio_op \<Rightarrow> bool" where
  "wellformed_op (Open signal currentPrice uuid now) =
     (0 \<le> sig_entryPrice signal \<and> 0 \<le> currentPrice)"
| "wellformed_op (Update prices) = (\<forall>symbol price. prices symbol = Some price \<longrightarrow> 0 \<le> price)"
| "wellformed_op (Close positionId exitPrice exitReason now) = (0 \<le> exitPrice)"

text \<open>
  The invariant behind the sign of the cash: cash and equity are not negative, no open
  position has a negative quantity or current price, and the rates of the configuration
  are in range.
\<close>

definition portfolio_inv :: "PortfolioService \<Rightarrow> bool" where
  "portfolio_inv s =
     (0 \<le> availableCash s \<and> 0 \<le> totalEquity s
      \<and> list_all (\<lambda>p. 0 \<le> pos_quantity p \<and> 0 \<le> pos_currentPrice p) (positions s)
      \<and> commissionRate (config s) \<le> 1
      \<and> 0 \<le> riskPerTradePercent (config s)
      \<and> 0 \<le> maxPositionPercent (config s))"

text \<open>
  The two paths by which a candle reaches the service, and a delivery of a candle by one
  of them: a WebSocket message, or one kline of a poll of the candle's symbol.
\<close>

datatype path = Push | Poll

definition deliver :: "path \<Rightarrow> BinanceService \<Rightarrow> Candle \<Rightarrow> BinanceService" where
  "deliver p s candle =
     (case p of
        Push \<Rightarrow> handleKlineMessage s candle
      | Poll \<Rightarrow> pollCandle s (c_symbol candle) candle)"

definition dispatch_count :: "BinanceService \<Rightarrow> string \<Rightarrow> int \<Rightarrow> nat" where
  "dispatch_count s symbol openTime =
     length (filter (\<lambda>c. c_symbol c = symbol \<and> c_openTime c = openTime) (dispatched s))"

text \<open>\<open>n\<close> times in a row: the socket closes and the reconnect timer fires.\<close>

fun reconnect_failures :: "nat \<Rightarrow> BinanceService \<Rightarrow> BinanceService" where
  "reconnect_failures 0 s = s"
| "reconnect_failures (Suc n) s = reconnect_failures n (reconnectTimer_fires (on_close s))"


section \<open>Example states\<close>

definition example_indicators :: Indicators where
  "example_indicators =
     \<lparr> ind_symbol = ''BTCUSDT'', ind_timestamp = 0, ema9 = 100, ema21 = 100, ema50 = 100,
       rsi14 = 40, atr14 = 2, atrPercent = 2, adx14 = 10, volumeSma20 = 1, volumeRatio = 1,
       lastSwingHigh = 105, lastSwingLow = 95 \<rparr>"

definition example_regime :: RegimeState where
  "example_regime =
     \<lparr> reg_symbol = ''BTCUSDT'', reg_timestamp = 0, volatility = normal, trend = neutral,
       decision = TRADE_ALLOWED, fearGreedIndex = 50, fearGreedLabel = ''Neutral'',
       reg_reason = ''example'' \<rparr>"

definition example_signal :: TradeSignal where
  "example_signal =
     \<lparr> sig_id = ''signal-1'', sig_symbol = ''BTCUSDT'', sig_timestamp = 0,
       sig_direction = LONG, sig_strength = weak, sig_entryPrice = 100, sig_stopLoss = 98,
       sig_takeProfit = 110, sig_riskRewardRatio = Some 5, sig_reason = ''example'',
       sig_indicators = example_indicators, sig_regime = example_regime \<rparr>"

text \<open>
  The position and the portfolio that \<open>openPosition\<close> makes of \<open>example_signal\<close>, filled
  at 100, on a new portfolio with the default configuration.
\<close>

definition example_position :: Position where
  "example_position =
     \<lparr> pos_id = ''p1'', pos_symbol = ''BTCUSDT'', pos_direction = LONG,
       pos_entryPrice = 100, pos_currentPrice = 100, pos_quantity = 15, pos_entryTime = 0,
       pos_stopLoss = 98, pos_takeProfit = 110, pos_unrealizedPnL = - (3 / 2),
       pos_unrealizedPnLPercent = Some (- (1 / 10)), pos_signalId = ''signal-1'' \<rparr>"

definition example_portfolio :: PortfolioService where
  "example_portfolio =
     \<lparr> config = DEFAULT_CONFIG, totalEquity = 10000, availableCash = 16997 / 2,
       positions = [example_position], closedTrades = [] \<rparr>"

definition example_trailing :: TrailingStopState where
  "example_trailing =
     \<lparr> isActive = False, activationPrice = 0, highestPrice = 100, lowestPrice = 100,
       currentStop = 98 \<rparr>"

definition example_trader :: TraderService where
  "example_trader =
     \<lparr> portfolio = example_portfolio, tr_config = DEFAULT_CONFIG,
       trailingStops = [''p1'' \<mapsto> example_trailing] \<rparr>"

text \<open>
  The trader with the trailing stop of the example position active at 119.4, above the
  take-profit of 110.
\<close>

definition both_hit_trader :: TraderService where
  "both_hit_trader =
     example_trader\<lparr> trailingStops :=
       [''p1'' \<mapsto> \<lparr> isActive = True, activationPrice = 101, highestPrice = 120,
                    lowestPrice = 100, currentStop = 597 / 5 \<rparr>] \<rparr>"

text \<open>A long position of 10 units entered at 100, as a maximal position of 10 percent gives.\<close>

definition ten_units_position :: Position where
  "ten_units_position =
     \<lparr> pos_id = ''p1'', pos_symbol = ''BTCUSDT'', pos_direction = LONG,
       pos_entryPrice = 100, pos_currentPrice = 100, pos_quantity = 10, pos_entryTime = 0,
       pos_stopLoss = 98, pos_takeProfit = 110, pos_unrealizedPnL = - 1,
       pos_unrealizedPnLPercent = Some (- (1 / 10)), pos_signalId = ''signal-1'' \<rparr>"

definition ten_units_portfolio :: PortfolioService where
  "ten_units_portfolio =
     \<lparr> config = DEFAULT_CONFIG\<lparr> maxPositionPercent := 1 / 10 \<rparr>, totalEquity = 10000,
       availableCash = 8999, positions = [ten_units_position], closedTrades = [] \<rparr>"

text \<open>Open the example position, mark it to market at 101, close it at 110.\<close>

definition example_ops :: "portfolio_op list" where
  "example_ops =
     [Open example_signal 100 ''p1'' 0,
      Update [''BTCUSDT'' \<mapsto> 101],
      Close ''p1'' 110 take_profit 9]"

text \<open>
  Three closed 15-minute candles; on them and \<open>example_indicators\<close> the EMA crossover
  does not fire and the RSI reversal does (RSI 40).
\<close>

definition candle_at :: "int \<Rightarrow> Candle" where
  "candle_at openTime =
     \<lparr> c_symbol = ''BTCUSDT'', c_interval = ''15m'', c_openTime = openTime,
       c_closeTime = openTime + 899999, c_open = 100, c_high = 101, c_low = 99,
       c_close = 100, c_volume = 1, c_isClosed = True \<rparr>"

definition example_candles :: "Candle list" where
  "example_candles = [candle_at 0, candle_at 900000, candle_at 1800000]"

definition no_later_signal ::
    "string \<Rightarrow> Candle list \<Rightarrow> Indicators \<Rightarrow> RegimeState \<Rightarrow> TradeSignal option" where
  "no_later_signal symbol candles indicators regime = None"

text \<open>
  A strategy configured with a cooldown of two candles, new, and after its signal on the
  candle that opened at 1800000.
\<close>

definition cooldown_config :: TradingConfig where
  "cooldown_config = DEFAULT_CONFIG\<lparr> cooldownCandles := 2 \<rparr>"

definition cooldown_strategy :: StrategyService where
  "cooldown_strategy =
     \<lparr> st_config = cooldown_config, lastSignalTime = [''BTCUSDT'' \<mapsto> 1800000] \<rparr>"

definition rsi_signal :: "string \<Rightarrow> TradeSignal" where
  "rsi_signal uuid =
     \<lparr> sig_id = uuid, sig_symbol = ''BTCUSDT'', sig_timestamp = 2699999,
       sig_direction = LONG, sig_strength = weak, sig_entryPrice = 100, sig_stopLoss = 97,
       sig_takeProfit = 105, sig_riskRewardRatio = Some (5 / 3),
       sig_reason = ''RSI oversold reversal'',
       sig_indicators = example_indicators, sig_regime = example_regime \<rparr>"

text \<open>
  The market data service started with no history, after ten reconnections that failed,
  and after the socket closed once more; and a poll that finds one closed candle per
  symbol.
\<close>

definition started_service :: BinanceService where
  "started_service = start new_BinanceService (\<lambda>symbol. None)"

definition retrying_service :: BinanceService where
  "retrying_service = reconnect_failures 10 started_service"

definition exhausted_service :: BinanceService where
  "exhausted_service = on_close retrying_service"

definition one_closed_kline :: "string \<Rightarrow> fetch_result" where
  "one_closed_kline symbol =
     Klines [\<lparr> k_openTime = 0, k_open = 100, k_high = 101, k_low = 99, k_close = 100,
              k_volume = 1, k_closeTime = 899999 \<rparr>]"

text \<open>
  The candle that opened at 0 is delivered, then the 200 closed candles that follow it,
  then the first one again.
\<close>

definition later_candles :: "Candle list" where
  "later_candles = map (\<lambda>n. candle_at (900000 * int n)) [1..<201]"

definition evicted_run :: BinanceService where
  "evicted_run =
     deliver Poll
       (foldl (deliver Push) (deliver Push new_BinanceService (candle_at 0)) later_candles)
       (candle_at 0)"

text \<open>
  The candle that opened at 0 while it is in progress, and the service after the
  WebSocket delivered it: the state in which the feed delivers the closed candle.
\<close>

definition in_progress_candle :: Candle where
  "in_progress_candle = (candle_at 0)\<lparr> c_isClosed := False \<rparr>"

definition watching_service :: BinanceService where
  "watching_service = deliver Push new_BinanceService in_progress_candle"

section \<open>Properties\<close>

subsection \<open>Portfolio accounting\<close>

lemma foldl_add_shift:
  "foldl (\<lambda>sum pos. sum + f pos) a ps = a + foldl (\<lambda>sum pos. sum + f pos) (0::real) ps"
proof (induction ps arbitrary: a)
  case Nil
  then show ?case by simp
next
  case (Cons p ps)
  show ?case
    using Cons.IH [of "a + f p"] Cons.IH [of "f p"] by simp
qed

lemma getPositionsValue_Nil [simp]: "getPositionsValue [] = 0"
  by (simp add: getPositionsValue_def)

lemma getPositionsValue_Cons [simp]:
  "getPositionsValue (p # ps) = pos_quantity p * pos_currentPrice p + getPositionsValue ps"
  unfolding getPositionsValue_def
  using foldl_add_shift [of "\<lambda>pos. pos_quantity pos * pos_currentPrice pos"
          "pos_quantity p * pos_currentPrice p" ps]
  by simp

lemma example_openPosition:
  "openPosition (new_PortfolioService DEFAULT_CONFIG) example_signal 100 ''p1'' 0
     = Inr (Some example_position, example_portfolio)"
  by (simp add: openPosition_def new_PortfolioService_def DEFAULT_CONFIG_def example_signal_def
      canOpenPosition_def calculatePositionSize_def js_div_def js_percent_def Let_def
      example_position_def example_portfolio_def)

lemma updatePositions_identity:
  "availableCash (updatePositions s prices)
     + getPositionsValue (positions (updatePositions s prices))
   = totalEquity (updatePositions s prices)"
  by (simp add: updatePositions_def Let_def)

lemma closePosition_identity:
  "closePosition s positionId exitPrice exitReason now = (Some ct, s') \<Longrightarrow>
   availableCash s' + getPositionsValue (positions s') = totalEquity s'"
  by (auto simp add: closePosition_def Let_def split: option.splits)

text \<open>
  Claim C1 (the portfolio identity after every mutation), evaluated at the first trade of a
  new portfolio with the default configuration: before \<open>openPosition\<close> the available
  cash plus the value of the open positions equals \<open>totalEquity\<close>; after it the sum is
  9998.5 (the entry commission of 1.5 has left the cash), and \<open>totalEquity\<close>, which
  \<open>openPosition\<close> does not write, is still 10000. \<open>updatePositions\<close> and
  \<open>closePosition\<close> recompute it (\<open>updatePositions_identity\<close>,
  \<open>closePosition_identity\<close>).
\<close>
theorem C1_openPosition_leaves_totalEquity_stale:
  "openPosition (new_PortfolioService DEFAULT_CONFIG) example_signal 100 ''p1'' 0
     = Inr (Some example_position, example_portfolio)
   \<and> availableCash (new_PortfolioService DEFAULT_CONFIG)
       + getPositionsValue (positions (new_PortfolioService DEFAULT_CONFIG))
       = totalEquity (new_PortfolioService DEFAULT_CONFIG)
   \<and> availableCash example_portfolio + getPositionsValue (positions example_portfolio)
       = 19997 / 2
   \<and> totalEquity example_portfolio = 10000"
  by (simp add: example_openPosition)
     (simp add: example_portfolio_def example_position_def new_PortfolioService_def
        DEFAULT_CONFIG_def)

subsection \<open>Position sizing\<close>






lemma calculatePositionSize_nonneg:
  assumes "0 \<le> totalEquity s" and "0 \<le> riskPerTradePercent (config s)"
    and "0 \<le> maxPositionPercent (config s)" and "0 \<le> entryPrice"
  shows "\<exists>q. calculatePositionSize s entryPrice stopLoss d = Some q \<and> 0 \<le> q"
proof -
  have a: "0 \<le> totalEquity s * maxPositionPercent (config s)"
    using assms by simp
  have d: "0 \<le> totalEquity s * riskPerTradePercent (config s)"
    using assms by simp
  have b: "0 \<le> totalEquity s * riskPerTradePercent (config s) / \<bar>entryPrice - stopLoss\<bar>"
    using d by (rule divide_nonneg_nonneg) simp
  have c: "0 \<le> totalEquity s * maxPositionPercent (config s) / entryPrice"
    using a assms(4) by (rule divide_nonneg_nonneg)
  show ?thesis
  proof (cases "entryPrice = 0")
    case True
    then show ?thesis
      using a b by (auto simp add: calculatePositionSize_def js_div_def Let_def)
  next
    case False
    then show ?thesis
      using b c by (auto simp add: calculatePositionSize_def js_div_def Let_def)
  qed
qed







subsection \<open>Closing a position\<close>

lemma find_positions_delete:
  "find (\<lambda>p. pos_id p = k) (positions_delete ps k) = None"
  by (induction ps) (auto simp add: positions_delete_def)

text \<open>
  Claim C5: closing an open position records a trade whose net P&L plus commission is the
  gross P&L, (exit - entry) times quantity for a long position and (entry - exit) times
  quantity otherwise; the commission is the entry notional times the rate plus the exit
  notional times the rate; the outcome is win, loss or breakeven by the sign of the net
  P&L; the cash grows by the exit notional minus the exit commission; the trade is
  appended to the closed trades and the position is no longer in the map. A long position
  of 10 units entered at 100 and closed at 110 with a rate of 0.1 percent has a net P&L of
  97.9 and is a win.
\<close>
theorem C5_closePosition:
  assumes "find (\<lambda>p. pos_id p = positionId) (positions s) = Some position"
  shows "\<exists>ct s'. closePosition s positionId exitPrice exitReason now = (Some ct, s')
     \<and> ct_pnl ct + ct_commission ct =
           (if pos_direction position = LONG
            then (exitPrice - pos_entryPrice position) * pos_quantity position
            else (pos_entryPrice position - exitPrice) * pos_quantity position)
     \<and> ct_commission ct =
           pos_quantity position * pos_entryPrice position * commissionRate (config s)
           + pos_quantity position * exitPrice * commissionRate (config s)
     \<and> ct_outcome ct =
           (if ct_pnl ct > 0 then win else if ct_pnl ct < 0 then loss else breakeven)
     \<and> availableCash s' = availableCash s
           + (pos_quantity position * exitPrice
              - pos_quantity position * exitPrice * commissionRate (config s))
     \<and> closedTrades s' = closedTrades s @ [ct]
     \<and> ct_id ct = positionId \<and> ct_exitPrice ct = exitPrice \<and> ct_exitReason ct = exitReason
     \<and> positions s' = positions_delete (positions s) positionId
     \<and> find (\<lambda>p. pos_id p = positionId) (positions s') = None
     \<and> (if pos_direction position = LONG \<and> pos_entryPrice position = 100
            \<and> pos_quantity position = 10 \<and> exitPrice = 110
            \<and> commissionRate (config s) = 1 / 1000
         then ct_pnl ct = 979 / 10 \<and> ct_outcome ct = win else True)"
proof -
  have k: "pos_id position = positionId"
    using assms by (auto simp add: find_Some_iff)
  show ?thesis
    using assms k
    by (simp add: closePosition_def Let_def find_positions_delete algebra_simps)
qed

theorem C5_closePosition_witness:
  "fst (closePosition ten_units_portfolio ''p1'' 110 take_profit 7) =
     Some \<lparr> ct_id = ''p1'', ct_symbol = ''BTCUSDT'', ct_direction = LONG, ct_entryPrice = 100,
            ct_exitPrice = 110, ct_quantity = 10, ct_entryTime = 0, ct_exitTime = 7,
            ct_pnl = 979 / 10, ct_pnlPercent = Some (979 / 100), ct_commission = 21 / 10,
            ct_outcome = win, ct_exitReason = take_profit, ct_signalId = ''signal-1'' \<rparr>
   \<and> availableCash (snd (closePosition ten_units_portfolio ''p1'' 110 take_profit 7)) = 8999 + 10989 / 10
   \<and> positions (snd (closePosition ten_units_portfolio ''p1'' 110 take_profit 7)) = []"
  using C5_closePosition [of "''p1''" ten_units_portfolio ten_units_position 110 take_profit 7]
  by (simp add: closePosition_def ten_units_portfolio_def ten_units_position_def DEFAULT_CONFIG_def
      positions_delete_def js_percent_def js_div_def Let_def getPositionsValue_def)

subsection \<open>The trailing stop is a ratchet\<close>

lemma trailingStop_update_LONG:
  "pos_direction position = LONG \<Longrightarrow>
   currentStop ts \<le> currentStop (trailingStop_update cfg position price ts)"
  by (simp add: trailingStop_update_def Let_def)

lemma trailingStop_update_SHORT:
  "pos_direction position \<noteq> LONG \<Longrightarrow>
   currentStop (trailingStop_update cfg position price ts) \<le> currentStop ts"
  by (simp add: trailingStop_update_def Let_def)

lemma trailingStop_update_adopts:
  "currentStop (trailingStop_update cfg position price ts) \<noteq> currentStop ts \<Longrightarrow>
   isActive (trailingStop_update cfg position price ts)
   \<and> (if pos_direction position = LONG
       then highestPrice (trailingStop_update cfg position price ts) = price
            \<and> highestPrice ts < price
            \<and> currentStop (trailingStop_update cfg position price ts)
                = price * (1 - trailingStopDistance cfg)
            \<and> currentStop ts < currentStop (trailingStop_update cfg position price ts)
       else lowestPrice (trailingStop_update cfg position price ts) = price
            \<and> price < lowestPrice ts
            \<and> currentStop (trailingStop_update cfg position price ts)
                = price * (1 + trailingStopDistance cfg)
            \<and> currentStop (trailingStop_update cfg position price ts) < currentStop ts)"
  by (auto simp add: trailingStop_update_def Let_def split: if_splits)

lemma updateTrailingStop_lookup:
  "trailingStops (updateTrailingStop t position price) k =
     (if k = pos_id position
      then map_option (trailingStop_update (tr_config t) position price) (trailingStops t k)
      else trailingStops t k)"
  by (simp add: updateTrailingStop_def split: option.splits)

lemma updateTrailingStop_config [simp]:
  "tr_config (updateTrailingStop t position price) = tr_config t"
  by (simp add: updateTrailingStop_def split: option.splits)

lemma trailing_run_LONG:
  "pos_direction position = LONG \<Longrightarrow> trailingStops t (pos_id position) = Some ts \<Longrightarrow>
   \<exists>ts'. trailingStops (trailing_run t position prices) (pos_id position) = Some ts'
         \<and> currentStop ts \<le> currentStop ts'"
proof (induction prices arbitrary: t ts)
  case Nil
  then show ?case by (simp add: trailing_run_def)
next
  case (Cons price prices)
  let ?t1 = "updateTrailingStop t position price"
  let ?ts1 = "trailingStop_update (tr_config t) position price ts"
  have l1: "trailingStops ?t1 (pos_id position) = Some ?ts1"
    using Cons.prems by (simp add: updateTrailingStop_lookup)
  from Cons.IH [OF Cons.prems(1) l1]
  obtain ts' where a: "trailingStops (trailing_run ?t1 position prices) (pos_id position) = Some ts'"
    and b: "currentStop ?ts1 \<le> currentStop ts'" by blast
  have "currentStop ts \<le> currentStop ?ts1"
    using Cons.prems(1) by (rule trailingStop_update_LONG)
  with a b show ?case by (auto simp add: trailing_run_def)
qed

lemma trailing_run_SHORT:
  "pos_direction position \<noteq> LONG \<Longrightarrow> trailingStops t (pos_id position) = Some ts \<Longrightarrow>
   \<exists>ts'. trailingStops (trailing_run t position prices) (pos_id position) = Some ts'
         \<and> currentStop ts' \<le> currentStop ts"
proof (induction prices arbitrary: t ts)
  case Nil
  then show ?case by (simp add: trailing_run_def)
next
  case (Cons price prices)
  let ?t1 = "updateTrailingStop t position price"
  let ?ts1 = "trailingStop_update (tr_config t) position price ts"
  have l1: "trailingStops ?t1 (pos_id position) = Some ?ts1"
    using Cons.prems by (simp add: updateTrailingStop_lookup)
  from Cons.IH [OF Cons.prems(1) l1]
  obtain ts' where a: "trailingStops (trailing_run ?t1 position prices) (pos_id position) = Some ts'"
    and b: "currentStop ts' \<le> currentStop ?ts1" by blast
  have "currentStop ?ts1 \<le> currentStop ts"
    using Cons.prems(1) by (rule trailingStop_update_SHORT)
  with a b show ?case by (auto simp add: trailing_run_def)
qed

lemma trailing_run_append:
  "trailing_run t position (xs @ ys) = trailing_run (trailing_run t position xs) position ys"
  by (simp add: trailing_run_def)

lemma checkExits_step_trailing:
  "trailingStops (snd (checkExits_step prices now acc position)) k = Some ts' \<Longrightarrow>
   (\<exists>ts. trailingStops (snd acc) k = Some ts \<and>
      (ts' = ts \<or> (k = pos_id position \<and> (\<exists>price. ts' = trailingStop_update (tr_config (snd acc)) position price ts))))"
  by (auto simp add: checkExits_step_def Let_def updateTrailingStop_lookup
      split: option.splits if_splits prod.splits)

lemma checkExits_step_config [simp]:
  "tr_config (snd (checkExits_step prices now acc position)) = tr_config (snd acc)"
  by (auto simp add: checkExits_step_def Let_def split: option.splits if_splits prod.splits)

lemma foldl_checkExits_step_LONG:
  "(\<forall>q \<in> set ps. pos_id q = k \<longrightarrow> pos_direction q = LONG) \<Longrightarrow>
   trailingStops (snd (foldl (checkExits_step prices now) acc ps)) k = Some ts' \<Longrightarrow>
   \<exists>ts. trailingStops (snd acc) k = Some ts \<and> currentStop ts \<le> currentStop ts'"
proof (induction ps arbitrary: acc)
  case Nil
  then show ?case by simp
next
  case (Cons p ps)
  let ?acc1 = "checkExits_step prices now acc p"
  have "\<forall>q \<in> set ps. pos_id q = k \<longrightarrow> pos_direction q = LONG"
    using Cons.prems(1) by simp
  moreover have "trailingStops (snd (foldl (checkExits_step prices now) ?acc1 ps)) k = Some ts'"
    using Cons.prems(2) by simp
  ultimately obtain ts1 where a: "trailingStops (snd ?acc1) k = Some ts1"
    and b: "currentStop ts1 \<le> currentStop ts'"
    using Cons.IH by blast
  from checkExits_step_trailing [OF a]
  obtain ts where c: "trailingStops (snd acc) k = Some ts"
    and d: "ts1 = ts \<or> (k = pos_id p \<and>
              (\<exists>price. ts1 = trailingStop_update (tr_config (snd acc)) p price ts))"
    by blast
  have "currentStop ts \<le> currentStop ts1"
  proof (cases "ts1 = ts")
    case True
    then show ?thesis by simp
  next
    case False
    with d obtain price where e: "k = pos_id p"
      and f: "ts1 = trailingStop_update (tr_config (snd acc)) p price ts" by blast
    have "pos_direction p = LONG" using Cons.prems(1) e by simp
    then show ?thesis unfolding f by (rule trailingStop_update_LONG)
  qed
  with b c show ?case by auto
qed

lemma foldl_checkExits_step_SHORT:
  "(\<forall>q \<in> set ps. pos_id q = k \<longrightarrow> pos_direction q \<noteq> LONG) \<Longrightarrow>
   trailingStops (snd (foldl (checkExits_step prices now) acc ps)) k = Some ts' \<Longrightarrow>
   \<exists>ts. trailingStops (snd acc) k = Some ts \<and> currentStop ts' \<le> currentStop ts"
proof (induction ps arbitrary: acc)
  case Nil
  then show ?case by simp
next
  case (Cons p ps)
  let ?acc1 = "checkExits_step prices now acc p"
  have "\<forall>q \<in> set ps. pos_id q = k \<longrightarrow> pos_direction q \<noteq> LONG"
    using Cons.prems(1) by simp
  moreover have "trailingStops (snd (foldl (checkExits_step prices now) ?acc1 ps)) k = Some ts'"
    using Cons.prems(2) by simp
  ultimately obtain ts1 where a: "trailingStops (snd ?acc1) k = Some ts1"
    and b: "currentStop ts' \<le> currentStop ts1"
    using Cons.IH by blast
  from checkExits_step_trailing [OF a]
  obtain ts where c: "trailingStops (snd acc) k = Some ts"
    and d: "ts1 = ts \<or> (k = pos_id p \<and>
              (\<exists>price. ts1 = trailingStop_update (tr_config (snd acc)) p price ts))"
    by blast
  have "currentStop ts1 \<le> currentStop ts"
  proof (cases "ts1 = ts")
    case True
    then show ?thesis by simp
  next
    case False
    with d obtain price where e: "k = pos_id p"
      and f: "ts1 = trailingStop_update (tr_config (snd acc)) p price ts" by blast
    have "pos_direction p \<noteq> LONG" using Cons.prems(1) e by simp
    then show ?thesis unfolding f by (rule trailingStop_update_SHORT)
  qed
  with b c show ?case by auto
qed

lemma checkExits_trailingStops:
  "trailingStops (snd (checkExits t prices now)) =
   trailingStops (snd (foldl (checkExits_step prices now) ([], t) (positions (portfolio t))))"
  by (simp add: checkExits_def Let_def getOpenPositions_def)

text \<open>
  Claim C2: for a position with a trailing-stop state, over any sequence of price updates
  by \<open>updateTrailingStop\<close> the stop after a longer sequence is at least the stop after
  any of its prefixes for a long position, and at most for a short one; one update either
  keeps the stop or sets it to the candidate computed from the new extreme price, and then
  the candidate is strictly better than the stop it replaces; and a state that is still
  there after \<open>checkExits\<close> has a stop at least (long) or at most (short) the one
  before.
\<close>
theorem C2_trailing_stop_ratchet:
  assumes "trailingStops t (pos_id position) = Some ts"
  shows "(\<exists>ts1 ts2.
            trailingStops (trailing_run t position prices1) (pos_id position) = Some ts1
          \<and> trailingStops (trailing_run t position (prices1 @ prices2)) (pos_id position) = Some ts2
          \<and> (if pos_direction position = LONG then currentStop ts1 \<le> currentStop ts2
              else currentStop ts2 \<le> currentStop ts1))
       \<and> (\<exists>ts'. trailingStops (updateTrailingStop t position price) (pos_id position) = Some ts'
             \<and> (currentStop ts' = currentStop ts
                 \<or> (if pos_direction position = LONG
                     then highestPrice ts' = price \<and> highestPrice ts < price
                          \<and> currentStop ts' = price * (1 - trailingStopDistance (tr_config t))
                          \<and> currentStop ts < currentStop ts'
                     else lowestPrice ts' = price \<and> price < lowestPrice ts
                          \<and> currentStop ts' = price * (1 + trailingStopDistance (tr_config t))
                          \<and> currentStop ts' < currentStop ts)))
       \<and> (\<forall>ts'. trailingStops (snd (checkExits t prices now)) (pos_id position) = Some ts'
             \<and> (\<forall>q \<in> set (positions (portfolio t)).
                    pos_id q = pos_id position \<longrightarrow> pos_direction q = pos_direction position)
             \<longrightarrow> (if pos_direction position = LONG then currentStop ts \<le> currentStop ts'
                  else currentStop ts' \<le> currentStop ts))"
proof -
  have run: "\<exists>ts1 ts2.
            trailingStops (trailing_run t position prices1) (pos_id position) = Some ts1
          \<and> trailingStops (trailing_run t position (prices1 @ prices2)) (pos_id position) = Some ts2
          \<and> (if pos_direction position = LONG then currentStop ts1 \<le> currentStop ts2
              else currentStop ts2 \<le> currentStop ts1)"
  proof (cases "pos_direction position = LONG")
    case True
    from trailing_run_LONG [OF True assms, of prices1]
    obtain ts1 where a: "trailingStops (trailing_run t position prices1) (pos_id position) = Some ts1"
      by blast
    from trailing_run_LONG [OF True a, of prices2]
    show ?thesis using a True by (auto simp add: trailing_run_append)
  next
    case False
    from trailing_run_SHORT [OF False assms, of prices1]
    obtain ts1 where a: "trailingStops (trailing_run t position prices1) (pos_id position) = Some ts1"
      by blast
    from trailing_run_SHORT [OF False a, of prices2]
    show ?thesis using a False by (auto simp add: trailing_run_append)
  qed
  let ?ts' = "trailingStop_update (tr_config t) position price ts"
  have "trailingStops (updateTrailingStop t position price) (pos_id position) = Some ?ts'"
    using assms by (simp add: updateTrailingStop_lookup)
  moreover have "currentStop ?ts' = currentStop ts
                 \<or> (if pos_direction position = LONG
                     then highestPrice ?ts' = price \<and> highestPrice ts < price
                          \<and> currentStop ?ts' = price * (1 - trailingStopDistance (tr_config t))
                          \<and> currentStop ts < currentStop ?ts'
                     else lowestPrice ?ts' = price \<and> price < lowestPrice ts
                          \<and> currentStop ?ts' = price * (1 + trailingStopDistance (tr_config t))
                          \<and> currentStop ?ts' < currentStop ts)"
    using trailingStop_update_adopts [of "tr_config t" position price ts] by auto
  ultimately have step: "\<exists>ts'. trailingStops (updateTrailingStop t position price) (pos_id position) = Some ts'
             \<and> (currentStop ts' = currentStop ts
                 \<or> (if pos_direction position = LONG
                     then highestPrice ts' = price \<and> highestPrice ts < price
                          \<and> currentStop ts' = price * (1 - trailingStopDistance (tr_config t))
                          \<and> currentStop ts < currentStop ts'
                     else lowestPrice ts' = price \<and> price < lowestPrice ts
                          \<and> currentStop ts' = price * (1 + trailingStopDistance (tr_config t))
                          \<and> currentStop ts' < currentStop ts))"
    by blast
  have exits: "\<forall>ts'. trailingStops (snd (checkExits t prices now)) (pos_id position) = Some ts'
             \<and> (\<forall>q \<in> set (positions (portfolio t)).
                    pos_id q = pos_id position \<longrightarrow> pos_direction q = pos_direction position)
             \<longrightarrow> (if pos_direction position = LONG then currentStop ts \<le> currentStop ts'
                  else currentStop ts' \<le> currentStop ts)"
  proof (intro allI impI)
    fix ts'
    assume h: "trailingStops (snd (checkExits t prices now)) (pos_id position) = Some ts'
             \<and> (\<forall>q \<in> set (positions (portfolio t)).
                    pos_id q = pos_id position \<longrightarrow> pos_direction q = pos_direction position)"
    then have f: "trailingStops (snd (foldl (checkExits_step prices now) ([], t)
                    (positions (portfolio t)))) (pos_id position) = Some ts'"
      by (simp add: checkExits_trailingStops)
    show "if pos_direction position = LONG then currentStop ts \<le> currentStop ts'
          else currentStop ts' \<le> currentStop ts"
    proof (cases "pos_direction position = LONG")
      case True
      then have "\<forall>q \<in> set (positions (portfolio t)). pos_id q = pos_id position
                   \<longrightarrow> pos_direction q = LONG"
        using h by simp
      from foldl_checkExits_step_LONG [OF this f] assms True show ?thesis by simp
    next
      case False
      then have "\<forall>q \<in> set (positions (portfolio t)). pos_id q = pos_id position
                   \<longrightarrow> pos_direction q \<noteq> LONG"
        using h by simp
      from foldl_checkExits_step_SHORT [OF this f] assms False show ?thesis by simp
    qed
  qed
  from run step exits show ?thesis by blast
qed

theorem C2_trailing_stop_ratchet_witness:
  "trailingStops example_trader (pos_id example_position) = Some example_trailing
   \<and> map_option currentStop (trailingStops (trailing_run example_trader example_position [101])
         (pos_id example_position)) = Some (20099 / 200)
   \<and> map_option currentStop (trailingStops
         (trailing_run example_trader example_position ([101] @ [103, 102]))
         (pos_id example_position)) = Some (20497 / 200)
   \<and> currentStop example_trailing \<le> 20099 / 200
   \<and> (20099 / 200 :: real) \<le> 20497 / 200
   \<and> map_option currentStop (trailingStops (snd (checkExits example_trader [''BTCUSDT'' \<mapsto> 101] 5))
         (pos_id example_position)) = Some (20099 / 200)"
proof -
  have h: "trailingStops example_trader (pos_id example_position) = Some example_trailing"
    by (simp add: example_trader_def example_position_def)
  have e: "trailingStops (snd (checkExits example_trader [''BTCUSDT'' \<mapsto> 101] 5)) ''p1''
             = Some \<lparr> isActive = True, activationPrice = 101, highestPrice = 101,
                      lowestPrice = 100, currentStop = 20099 / 200 \<rparr>"
    by (simp add: checkExits_def checkExits_step_def getOpenPositions_def example_trader_def
        example_portfolio_def example_position_def example_trailing_def DEFAULT_CONFIG_def
        updateTrailingStop_def trailingStop_update_def js_div_gt_def checkExitConditions_def
        Let_def)
  show ?thesis
    using h e C2_trailing_stop_ratchet [OF h, of "[101]" "[103, 102]" 101 "[''BTCUSDT'' \<mapsto> 101]" 5]
    by (simp add: trailing_run_def example_trader_def example_position_def
        example_trailing_def DEFAULT_CONFIG_def updateTrailingStop_def trailingStop_update_def
        js_div_gt_def Let_def)
qed

subsection \<open>Exit priority\<close>

lemma checkExits_step_exit:
  assumes "prices (pos_symbol position) = Some currentPrice" and "currentPrice \<noteq> 0"
    and "trailingStops t (pos_id position) = Some ts0"
    and "find (\<lambda>p. pos_id p = pos_id position) (positions (portfolio t)) = Some q"
    and "checkExitConditions position currentPrice
           (trailingStop_update (tr_config t) position currentPrice ts0) = Some reason"
  shows "\<exists>ct t'. checkExits_step prices now (trades, t) position = (trades @ [ct], t')
           \<and> ct_id ct = pos_id position \<and> ct_exitPrice ct = currentPrice
           \<and> ct_exitReason ct = reason \<and> trailingStops t' (pos_id position) = None"
proof -
  have k: "pos_id q = pos_id position"
    using assms(4) by (auto simp add: find_Some_iff)
  show ?thesis
    using assms k
    by (simp add: checkExits_step_def Let_def updateTrailingStop_def closePosition_def)
qed

lemma checkExits_step_no_exit:
  assumes "prices (pos_symbol position) = Some currentPrice" and "currentPrice \<noteq> 0"
    and "trailingStops t (pos_id position) = Some ts0"
    and "checkExitConditions position currentPrice
           (trailingStop_update (tr_config t) position currentPrice ts0) = None"
  shows "checkExits_step prices now (trades, t) position
           = (trades, updateTrailingStop t position currentPrice)"
  using assms by (simp add: checkExits_step_def Let_def updateTrailingStop_def)

text \<open>
  Claim C3: \<open>checkExitConditions\<close> is the first match among take-profit, trailing stop
  (only if trailing is active) and static stop-loss, in this order; when the price
  satisfies take-profit and an active trailing stop at once, the reason is take-profit;
  and in \<open>checkExits\<close>, for an open position with a known price that is not zero, the
  first match on the updated trailing state is the exit reason recorded in the closed
  trade (and with no match the position stays open).
\<close>
theorem C3_exit_priority:
  "checkExitConditions position currentPrice trailingState
     = exit_priority position currentPrice trailingState
   \<and> (takeProfit_hit position currentPrice
        \<and> trailingStop_hit position currentPrice trailingState
      \<longrightarrow> checkExitConditions position currentPrice trailingState = Some take_profit)
   \<and> (prices (pos_symbol position) = Some currentPrice \<and> currentPrice \<noteq> 0
        \<and> trailingStops t (pos_id position) = Some ts0
        \<and> find (\<lambda>p. pos_id p = pos_id position) (positions (portfolio t)) = Some q
        \<and> exit_priority position currentPrice
             (trailingStop_update (tr_config t) position currentPrice ts0) = Some reason
      \<longrightarrow> (\<exists>ct t'. checkExits_step prices now (trades, t) position = (trades @ [ct], t')
             \<and> ct_id ct = pos_id position \<and> ct_exitPrice ct = currentPrice
             \<and> ct_exitReason ct = reason \<and> trailingStops t' (pos_id position) = None))
   \<and> (prices (pos_symbol position) = Some currentPrice \<and> currentPrice \<noteq> 0
        \<and> trailingStops t (pos_id position) = Some ts0
        \<and> exit_priority position currentPrice
             (trailingStop_update (tr_config t) position currentPrice ts0) = None
      \<longrightarrow> checkExits_step prices now (trades, t) position
            = (trades, updateTrailingStop t position currentPrice))"
proof -
  have refine: "\<And>ts. checkExitConditions position currentPrice ts
                  = exit_priority position currentPrice ts"
    by (simp add: checkExitConditions_def exit_priority_def takeProfit_hit_def
        trailingStop_hit_def stopLoss_hit_def)
  have both: "takeProfit_hit position currentPrice
        \<and> trailingStop_hit position currentPrice trailingState
      \<longrightarrow> checkExitConditions position currentPrice trailingState = Some take_profit"
    by (simp add: refine exit_priority_def)
  have exit: "prices (pos_symbol position) = Some currentPrice \<and> currentPrice \<noteq> 0
        \<and> trailingStops t (pos_id position) = Some ts0
        \<and> find (\<lambda>p. pos_id p = pos_id position) (positions (portfolio t)) = Some q
        \<and> exit_priority position currentPrice
             (trailingStop_update (tr_config t) position currentPrice ts0) = Some reason
      \<longrightarrow> (\<exists>ct t'. checkExits_step prices now (trades, t) position = (trades @ [ct], t')
             \<and> ct_id ct = pos_id position \<and> ct_exitPrice ct = currentPrice
             \<and> ct_exitReason ct = reason \<and> trailingStops t' (pos_id position) = None)"
    using checkExits_step_exit [of prices position currentPrice t ts0 q reason now trades]
    by (simp add: refine)
  have stay: "prices (pos_symbol position) = Some currentPrice \<and> currentPrice \<noteq> 0
        \<and> trailingStops t (pos_id position) = Some ts0
        \<and> exit_priority position currentPrice
             (trailingStop_update (tr_config t) position currentPrice ts0) = None
      \<longrightarrow> checkExits_step prices now (trades, t) position
            = (trades, updateTrailingStop t position currentPrice)"
    using checkExits_step_no_exit [of prices position currentPrice t ts0 now trades]
    by (simp add: refine)
  from refine [of trailingState] both exit stay show ?thesis by blast
qed

theorem C3_exit_priority_witness:
  "takeProfit_hit example_position 115
   \<and> trailingStop_hit example_position 115
         \<lparr> isActive = True, activationPrice = 101, highestPrice = 120, lowestPrice = 100,
           currentStop = 597 / 5 \<rparr>
   \<and> checkExitConditions example_position 115
         \<lparr> isActive = True, activationPrice = 101, highestPrice = 120, lowestPrice = 100,
           currentStop = 597 / 5 \<rparr> = Some take_profit
   \<and> map ct_exitReason (fst (checkExits both_hit_trader [''BTCUSDT'' \<mapsto> 115] 9))
       = [take_profit]"
proof -
  let ?ts = "\<lparr> isActive = True, activationPrice = 101, highestPrice = 120, lowestPrice = 100,
               currentStop = 597 / 5 \<rparr>"
  have tp: "takeProfit_hit example_position 115"
    by (simp add: takeProfit_hit_def example_position_def)
  have tr: "trailingStop_hit example_position 115 ?ts"
    by (simp add: trailingStop_hit_def example_position_def)
  have ex: "map ct_exitReason (fst (checkExits both_hit_trader [''BTCUSDT'' \<mapsto> 115] 9))
              = [take_profit]"
    by (simp add: checkExits_def checkExits_step_def getOpenPositions_def both_hit_trader_def
        example_trader_def example_portfolio_def example_position_def DEFAULT_CONFIG_def
        updateTrailingStop_def trailingStop_update_def js_div_gt_def checkExitConditions_def
        closePosition_def positions_delete_def js_percent_def js_div_def Let_def)
  have "checkExitConditions example_position 115 ?ts = Some take_profit"
    using tp tr
      C3_exit_priority [where position = example_position and currentPrice = 115
        and trailingState = "?ts", THEN conjunct2, THEN conjunct1]
    by simp
  then show ?thesis
    using tp tr ex by simp
qed

subsection \<open>The cash is never negative\<close>

lemma getPositionsValue_nonneg:
  "list_all (\<lambda>p. 0 \<le> pos_quantity p \<and> 0 \<le> pos_currentPrice p) ps \<Longrightarrow>
   0 \<le> getPositionsValue ps"
  by (induction ps) simp_all

lemma positions_set_all:
  "list_all P ps \<Longrightarrow> P p \<Longrightarrow> list_all P (positions_set ps p)"
  by (induction ps) auto

lemma openPosition_inv:
  assumes "portfolio_inv s" and "0 \<le> sig_entryPrice signal" and "0 \<le> currentPrice"
  shows "\<exists>r s'. openPosition s signal currentPrice uuid now = Inr (r, s') \<and> portfolio_inv s'"
proof -
  obtain q where q: "calculatePositionSize s (sig_entryPrice signal) (sig_stopLoss signal)
                       (sig_direction signal) = Some q" and qpos: "0 \<le> q"
    using calculatePositionSize_nonneg [of s "sig_entryPrice signal"] assms
    by (auto simp add: portfolio_inv_def)
  show ?thesis
    using assms q qpos
    by (auto simp add: openPosition_def Let_def portfolio_inv_def positions_set_all)
qed

lemma updatePosition_fields:
  "(\<forall>symbol price. prices symbol = Some price \<longrightarrow> 0 \<le> price) \<Longrightarrow>
   0 \<le> pos_quantity p \<and> 0 \<le> pos_currentPrice p \<Longrightarrow>
   0 \<le> pos_quantity (updatePosition cfg prices p)
   \<and> 0 \<le> pos_currentPrice (updatePosition cfg prices p)"
  by (auto simp add: updatePosition_def Let_def split: option.splits)

lemma updatePositions_inv:
  assumes "portfolio_inv s" and "\<forall>symbol price. prices symbol = Some price \<longrightarrow> 0 \<le> price"
  shows "portfolio_inv (updatePositions s prices)"
proof -
  have "list_all (\<lambda>p. 0 \<le> pos_quantity p \<and> 0 \<le> pos_currentPrice p)
          (map (updatePosition (config s) prices) (positions s))"
    using assms updatePosition_fields [OF assms(2)]
    by (simp add: portfolio_inv_def list_all_iff)
  then show ?thesis
    using assms(1) getPositionsValue_nonneg
    by (simp add: updatePositions_def Let_def portfolio_inv_def)
qed

lemma closePosition_inv:
  assumes "portfolio_inv s" and "0 \<le> exitPrice"
  shows "portfolio_inv (snd (closePosition s positionId exitPrice exitReason now))"
proof (cases "find (\<lambda>p. pos_id p = positionId) (positions s)")
  case None
  then show ?thesis using assms by (simp add: closePosition_def)
next
  case (Some position)
  then have "position \<in> set (positions s)"
    by (auto simp add: find_Some_iff)
  then have qty: "0 \<le> pos_quantity position"
    using assms(1) by (auto simp add: portfolio_inv_def list_all_iff)
  have rest: "list_all (\<lambda>p. 0 \<le> pos_quantity p \<and> 0 \<le> pos_currentPrice p)
                (positions_delete (positions s) (pos_id position))"
    using assms(1) by (auto simp add: portfolio_inv_def positions_delete_def list_all_iff)
  have "pos_quantity position * exitPrice * commissionRate (config s)
          \<le> pos_quantity position * exitPrice * 1"
    using assms qty by (intro mult_left_mono) (auto simp add: portfolio_inv_def)
  then have credit: "0 \<le> pos_quantity position * exitPrice
                        - pos_quantity position * exitPrice * commissionRate (config s)"
    by simp
  have cash: "0 \<le> availableCash s + (pos_quantity position * exitPrice
                        - pos_quantity position * exitPrice * commissionRate (config s))"
    using credit assms(1) by (simp add: portfolio_inv_def)
  show ?thesis
    using Some assms(1) cash rest getPositionsValue_nonneg [OF rest]
    by (simp add: closePosition_def Let_def portfolio_inv_def)
qed

lemma apply_op_inv:
  assumes "portfolio_inv s" and "wellformed_op op"
  shows "\<exists>s'. apply_op s op = Inr s' \<and> portfolio_inv s'"
proof (cases op)
  case (Open signal currentPrice uuid now)
  then show ?thesis
    using assms openPosition_inv [of s signal currentPrice uuid now] by auto
next
  case (Update prices)
  then show ?thesis using assms updatePositions_inv [of s prices] by simp
next
  case (Close positionId exitPrice exitReason now)
  then show ?thesis using assms closePosition_inv [of s exitPrice] by simp
qed

lemma run_ops_inv:
  "portfolio_inv s \<Longrightarrow> list_all wellformed_op ops \<Longrightarrow>
   \<exists>s'. run_ops s ops = Inr s' \<and> portfolio_inv s'"
proof (induction ops arbitrary: s)
  case Nil
  then show ?case by simp
next
  case (Cons op ops)
  then obtain s1 where a: "apply_op s op = Inr s1" and b: "portfolio_inv s1"
    using apply_op_inv [of s op] by auto
  from Cons.IH [OF b] Cons.prems(2) a show ?case by simp
qed

lemma openPosition_cash:
  "openPosition s signal currentPrice uuid now = Inr (Some p, s') \<Longrightarrow>
   pos_quantity p * currentPrice + pos_quantity p * currentPrice * commissionRate (config s)
     \<le> availableCash s
   \<and> availableCash s' = availableCash s
       - (pos_quantity p * currentPrice
          + pos_quantity p * currentPrice * commissionRate (config s))"
  by (auto simp add: openPosition_def Let_def split: if_splits option.splits)

lemma openPosition_rejected:
  "openPosition s signal currentPrice uuid now = Inr (None, s') \<Longrightarrow> s' = s"
  by (auto simp add: openPosition_def Let_def split: if_splits option.splits)

lemma closePosition_cash:
  "closePosition s positionId exitPrice exitReason now = (Some ct, s') \<Longrightarrow>
   availableCash s' = availableCash s
       + (ct_quantity ct * exitPrice - ct_quantity ct * exitPrice * commissionRate (config s))"
  by (auto simp add: closePosition_def Let_def split: option.splits)

lemma closePosition_not_found:
  "closePosition s positionId exitPrice exitReason now = (None, s') \<Longrightarrow> s' = s"
  by (auto simp add: closePosition_def Let_def split: option.splits)

text \<open>
  Claim C10: the cash starts at the initial capital; an opening is accepted only when its
  notional plus entry commission is at most the cash, and takes exactly that from it; a
  closing adds the exit notional minus the exit commission; and with an initial capital
  that is not negative, a commission rate of at most 1, risk and position fractions that
  are not negative, every sequence of well-formed open, update and close operations runs
  to a portfolio whose cash is not negative.
\<close>
theorem C10_cash_never_negative:
  assumes "0 \<le> initialCapital cfg" and "commissionRate cfg \<le> 1"
    and "0 \<le> riskPerTradePercent cfg" and "0 \<le> maxPositionPercent cfg"
    and "list_all wellformed_op ops"
  shows "availableCash (new_PortfolioService cfg) = initialCapital cfg
     \<and> (\<exists>s. run_ops (new_PortfolioService cfg) ops = Inr s \<and> 0 \<le> availableCash s)
     \<and> (\<forall>s signal currentPrice uuid now p s'.
           openPosition s signal currentPrice uuid now = Inr (Some p, s') \<longrightarrow>
             pos_quantity p * currentPrice
               + pos_quantity p * currentPrice * commissionRate (config s) \<le> availableCash s
             \<and> availableCash s' = availableCash s
                 - (pos_quantity p * currentPrice
                    + pos_quantity p * currentPrice * commissionRate (config s)))
     \<and> (\<forall>s positionId exitPrice exitReason now ct s'.
           closePosition s positionId exitPrice exitReason now = (Some ct, s') \<longrightarrow>
             availableCash s' = availableCash s
               + (ct_quantity ct * exitPrice
                  - ct_quantity ct * exitPrice * commissionRate (config s)))"
proof -
  have "portfolio_inv (new_PortfolioService cfg)"
    using assms by (simp add: portfolio_inv_def new_PortfolioService_def)
  from run_ops_inv [OF this assms(5)]
  have "\<exists>s. run_ops (new_PortfolioService cfg) ops = Inr s \<and> 0 \<le> availableCash s"
    by (auto simp add: portfolio_inv_def)
  then show ?thesis
    using openPosition_cash closePosition_cash
    by (simp add: new_PortfolioService_def)
qed



theorem C10_cash_never_negative_witness:
  "0 \<le> initialCapital DEFAULT_CONFIG \<and> commissionRate DEFAULT_CONFIG \<le> 1
   \<and> 0 \<le> riskPerTradePercent DEFAULT_CONFIG \<and> 0 \<le> maxPositionPercent DEFAULT_CONFIG
   \<and> list_all wellformed_op example_ops
   \<and> map_sum id availableCash (run_ops (new_PortfolioService DEFAULT_CONFIG) example_ops)
       = Inr (202937 / 20)
   \<and> (\<exists>s. run_ops (new_PortfolioService DEFAULT_CONFIG) example_ops = Inr s
           \<and> 0 \<le> availableCash s)"
proof -
  have c: "0 \<le> initialCapital DEFAULT_CONFIG" "commissionRate DEFAULT_CONFIG \<le> 1"
    "0 \<le> riskPerTradePercent DEFAULT_CONFIG" "0 \<le> maxPositionPercent DEFAULT_CONFIG"
    by (simp_all add: DEFAULT_CONFIG_def)
  have w: "list_all wellformed_op example_ops"
    by (simp add: example_ops_def example_signal_def)
  have r: "map_sum id availableCash (run_ops (new_PortfolioService DEFAULT_CONFIG) example_ops)
             = Inr (202937 / 20)"
    by (simp add: example_ops_def example_openPosition)
       (simp add: example_portfolio_def example_position_def updatePositions_def
          updatePosition_def closePosition_def positions_delete_def js_percent_def js_div_def
          DEFAULT_CONFIG_def Let_def)
  show ?thesis
    using c w r C10_cash_never_negative [OF c w] by simp
qed

subsection \<open>The approval gate fails open\<close>

lemma evaluateSignal_fallback:
  "evaluateSignal_try signal news now completion json_parse = Inl e \<Longrightarrow>
   evaluateSignal signal news now completion json_parse =
     \<lparr> lr_signalId = sig_id signal, lr_decision = ''APPROVE'', lr_confidence = 1 / 2,
       lr_reasoning = ''LLM evaluation failed: '' @ error_message e
                        @ ''. Proceeding with caution.'',
       lr_delayMinutes = None, lr_newsContext = map title (take 10 news),
       lr_timestamp = now \<rparr>"
  by (simp add: evaluateSignal_def)

text \<open>
  Claim C9: if the \<open>try\<close> block of \<open>evaluateSignal\<close> throws (the API call throws, the
  response is empty, \<open>JSON.parse\<close> throws, or the parsed response lacks a decision, a
  numeric confidence or a reasoning), the result has decision APPROVE and confidence 0.5,
  and the approval step of the engine executes the trade exactly as if the filter had
  approved it.
\<close>
theorem C9_approval_gate_fails_open:
  "(evaluateSignal_try signal news now completion json_parse = Inl e \<longrightarrow>
      lr_decision (evaluateSignal signal news now completion json_parse) = ''APPROVE''
      \<and> lr_confidence (evaluateSignal signal news now completion json_parse) = 1 / 2
      \<and> execute_if_approved t signal currentPrice uuid now'
            (evaluateSignal signal news now completion json_parse)
          = executeTrade t signal currentPrice uuid now')
   \<and> evaluateSignal_try signal news now (ApiThrows e) json_parse = Inl e
   \<and> evaluateSignal_try signal news now (ApiContent None) json_parse
       = Inl (Error ''Empty response from OpenAI'')
   \<and> evaluateSignal_try signal news now (ApiContent (Some [])) json_parse
       = Inl (Error ''Empty response from OpenAI'')
   \<and> (responseText \<noteq> [] \<and> json_parse responseText = ParseThrows e \<longrightarrow>
        evaluateSignal_try signal news now (ApiContent (Some responseText)) json_parse = Inl e)
   \<and> (responseText \<noteq> [] \<and> json_parse responseText = Parsed llmResponse
        \<and> (resp_decision llmResponse = None \<or> resp_decision llmResponse = Some []
           \<or> resp_confidence llmResponse = None
           \<or> resp_reasoning llmResponse = None \<or> resp_reasoning llmResponse = Some []) \<longrightarrow>
        evaluateSignal_try signal news now (ApiContent (Some responseText)) json_parse
          = Inl (Error ''Invalid LLM response structure''))"
proof -
  have fallback: "evaluateSignal_try signal news now completion json_parse = Inl e \<longrightarrow>
      lr_decision (evaluateSignal signal news now completion json_parse) = ''APPROVE''
      \<and> lr_confidence (evaluateSignal signal news now completion json_parse) = 1 / 2
      \<and> execute_if_approved t signal currentPrice uuid now'
            (evaluateSignal signal news now completion json_parse)
          = executeTrade t signal currentPrice uuid now'"
    by (simp add: evaluateSignal_fallback execute_if_approved_def)
  have invalid: "responseText \<noteq> [] \<and> json_parse responseText = Parsed llmResponse
        \<and> (resp_decision llmResponse = None \<or> resp_decision llmResponse = Some []
           \<or> resp_confidence llmResponse = None
           \<or> resp_reasoning llmResponse = None \<or> resp_reasoning llmResponse = Some []) \<longrightarrow>
        evaluateSignal_try signal news now (ApiContent (Some responseText)) json_parse
          = Inl (Error ''Invalid LLM response structure'')"
    by (auto simp add: evaluateSignal_try_def split: option.splits)
  show ?thesis
    using fallback invalid by (simp add: evaluateSignal_try_def)
qed

theorem C9_approval_gate_fails_open_witness:
  "evaluateSignal_try example_signal [] 0 (ApiThrows (Error ''timeout'')) (\<lambda>text. ParsedNull)
     = Inl (Error ''timeout'')
   \<and> lr_decision (evaluateSignal example_signal [] 0 (ApiThrows (Error ''timeout''))
         (\<lambda>text. ParsedNull)) = ''APPROVE''
   \<and> lr_confidence (evaluateSignal example_signal [] 0 (ApiThrows (Error ''timeout''))
         (\<lambda>text. ParsedNull)) = 1 / 2
   \<and> execute_if_approved
         (new_TraderService (new_PortfolioService DEFAULT_CONFIG) DEFAULT_CONFIG)
         example_signal 100 ''p1'' 0
         (evaluateSignal example_signal [] 0 (ApiThrows (Error ''timeout'')) (\<lambda>text. ParsedNull))
       = Inr (Some example_position, example_trader)"
proof -
  have a: "evaluateSignal_try example_signal [] 0 (ApiThrows (Error ''timeout''))
             (\<lambda>text. ParsedNull) = Inl (Error ''timeout'')"
    by (simp add: evaluateSignal_try_def)
  have b: "executeTrade (new_TraderService (new_PortfolioService DEFAULT_CONFIG) DEFAULT_CONFIG)
             example_signal 100 ''p1'' 0 = Inr (Some example_position, example_trader)"
    by (simp add: executeTrade_def example_openPosition new_TraderService_def
        example_trader_def example_trailing_def)
       (simp add: example_position_def)
  from C9_approval_gate_fails_open
         [where signal = example_signal and news = "[]" and now = 0
            and completion = "ApiThrows (Error ''timeout'')" and json_parse = "\<lambda>text. ParsedNull"
            and e = "Error ''timeout''"
            and t = "new_TraderService (new_PortfolioService DEFAULT_CONFIG) DEFAULT_CONFIG"
            and currentPrice = 100 and uuid = "''p1''" and now' = 0,
          THEN conjunct1]
  show ?thesis using a b by simp
qed

subsection \<open>The cooldown gate\<close>

lemma example_detectors:
  "checkEMACrossover uuid ''BTCUSDT'' example_candles example_indicators example_regime = None"
  "checkRSIReversal uuid ''BTCUSDT'' example_candles example_indicators example_regime
     = Some (rsi_signal uuid)"
  by (simp_all add: checkEMACrossover_def checkRSIReversal_def createSignal_def
      calculateStrength_def example_candles_def example_indicators_def candle_at_def
      rsi_signal_def js_div_def Let_def)

text \<open>
  Claim C8, as stated, at a cooldown of two candles: the strategy gives a signal for
  BTCUSDT on the candle that opened at 1800000 and records that open time; evaluated
  again on the same candles (no candle has elapsed since its last signal, and the
  engine does ask twice per candle), it gives a signal again.
\<close>
theorem C8_cooldown_not_enforced:
  "cooldownCandles (st_config (new_StrategyService cooldown_config)) = 2
   \<and> evaluate (new_StrategyService cooldown_config) ''s1'' no_later_signal ''BTCUSDT''
        example_candles example_indicators example_regime
      = Inr (Some (rsi_signal ''s1''), cooldown_strategy)
   \<and> lastSignalTime cooldown_strategy ''BTCUSDT'' = Some (c_openTime (last example_candles))
   \<and> evaluate cooldown_strategy ''s2'' no_later_signal ''BTCUSDT''
        example_candles example_indicators example_regime
      = Inr (Some (rsi_signal ''s2''), cooldown_strategy)"
proof -
  have regime: "decision example_regime \<noteq> DANGER"
    by (simp add: example_regime_def)
  have candles: "example_candles \<noteq> []" "c_openTime (last example_candles) = 1800000"
    by (simp_all add: example_candles_def candle_at_def)
  have "cooldownCandles (st_config (new_StrategyService cooldown_config)) = 2"
    by (simp add: new_StrategyService_def cooldown_config_def)
  moreover have "evaluate (new_StrategyService cooldown_config) ''s1'' no_later_signal ''BTCUSDT''
        example_candles example_indicators example_regime
      = Inr (Some (rsi_signal ''s1''), cooldown_strategy)"
    using regime candles
    by (simp add: evaluate_def canTrade_def example_detectors or_else_def
        updateLastSignalTime_def new_StrategyService_def cooldown_strategy_def)
  moreover have "lastSignalTime cooldown_strategy ''BTCUSDT''
                   = Some (c_openTime (last example_candles))"
    using candles by (simp add: cooldown_strategy_def)
  moreover have "evaluate cooldown_strategy ''s2'' no_later_signal ''BTCUSDT''
        example_candles example_indicators example_regime
      = Inr (Some (rsi_signal ''s2''), cooldown_strategy)"
    using regime candles
    by (simp add: evaluate_def canTrade_def example_detectors or_else_def
        updateLastSignalTime_def cooldown_strategy_def)
  ultimately show ?thesis by simp
qed

text \<open>
  Claim C8, amended: the cooldown gate \<open>canTrade\<close> is consulted once, after the regime
  gate and before the detectors, and it always permits (zero cooldown), whatever
  \<open>cooldownCandles\<close> and the time of the last signal are. On a regime of DANGER
  \<open>evaluate\<close> gives no signal; otherwise, on candles that are not empty, its signal is
  that of the first detector that fires, and it is the same for every configuration and
  every record of last signal times. With \<open>cooldownCandles = 0\<close>, the default, this is
  the cooldown the claim describes.
\<close>
theorem C8_gates_before_detectors:
  "canTrade st symbol candles
   \<and> (decision regime = DANGER \<longrightarrow>
        evaluate st uuid later symbol candles indicators regime = Inr (None, st))
   \<and> (decision regime \<noteq> DANGER \<and> candles \<noteq> [] \<longrightarrow>
        map_sum id fst (evaluate st uuid later symbol candles indicators regime)
          = Inr (or_else (checkEMACrossover uuid symbol candles indicators regime)
                (or_else (checkRSIReversal uuid symbol candles indicators regime)
                         (later symbol candles indicators regime))))
   \<and> map_sum id fst (evaluate (st\<lparr> st_config := cfg', lastSignalTime := times' \<rparr>) uuid later
          symbol candles indicators regime)
       = map_sum id fst (evaluate st uuid later symbol candles indicators regime)
   \<and> (cooldownCandles (st_config st) = 0 \<longrightarrow> canTrade st symbol candles)"
  by (simp add: evaluate_def canTrade_def Let_def split: option.splits)

theorem C8_gates_before_detectors_witness:
  "decision example_regime \<noteq> DANGER \<and> example_candles \<noteq> []
   \<and> canTrade cooldown_strategy ''BTCUSDT'' example_candles
   \<and> map_sum id fst (evaluate cooldown_strategy ''s2'' no_later_signal ''BTCUSDT''
        example_candles example_indicators example_regime) = Inr (Some (rsi_signal ''s2''))
   \<and> evaluate cooldown_strategy ''s2'' no_later_signal ''BTCUSDT''
        example_candles example_indicators (example_regime\<lparr> decision := DANGER \<rparr>)
      = Inr (None, cooldown_strategy)"
proof -
  have a: "decision example_regime \<noteq> DANGER" "example_candles \<noteq> []"
    by (simp_all add: example_regime_def example_candles_def)
  from C8_gates_before_detectors
         [where st = cooldown_strategy and symbol = "''BTCUSDT''" and candles = example_candles
            and regime = example_regime and uuid = "''s2''" and later = no_later_signal
            and indicators = example_indicators]
       C8_gates_before_detectors
         [where st = cooldown_strategy and symbol = "''BTCUSDT''" and candles = example_candles
            and regime = "example_regime\<lparr> decision := DANGER \<rparr>" and uuid = "''s2''"
            and later = no_later_signal and indicators = example_indicators]
  show ?thesis
    using a by (simp add: example_detectors or_else_def)
qed

subsection \<open>Reconnection and the polling fallback\<close>

lemma on_open_resets: "reconnectAttempts (on_open s) = 0"
  by (simp add: on_open_def)

lemma scheduleReconnect_below_max:
  "reconnectAttempts s < maxReconnectAttempts \<Longrightarrow>
   reconnectAttempts (scheduleReconnect s) = reconnectAttempts s + 1
   \<and> reconnectTimer (scheduleReconnect s)
       = Some (min (baseReconnectDelay * 2 ^ reconnectAttempts s) 30000)
   \<and> isRunning (scheduleReconnect s) = isRunning s"
  by (simp add: scheduleReconnect_def Let_def)

lemma stopped_stays_stopped:
  "\<not> isRunning s \<Longrightarrow>
   \<not> isRunning (on_close s) \<and> reconnectTimer (on_close s) = reconnectTimer s
   \<and> \<not> isRunning (reconnectTimer_fires s) \<and> ws (reconnectTimer_fires s) = ws s
   \<and> \<not> isRunning (pollTick s now fetch) \<and> \<not> pollingInterval (pollTick s now fetch)
   \<and> candleBuffers (pollTick s now fetch) = candleBuffers s
   \<and> dispatched (pollTick s now fetch) = dispatched s"
  by (auto simp add: on_close_def reconnectTimer_fires_def pollTick_def Let_def
      split: option.splits)

lemma failure_step:
  assumes "isRunning s" and "reconnectAttempts s < maxReconnectAttempts"
  shows "reconnectTimer_fires (on_close s)
           = s\<lparr> ws := Connecting, reconnectAttempts := reconnectAttempts s + 1,
                reconnectTimer := None \<rparr>"
  using assms
  by (simp add: on_close_def scheduleReconnect_def reconnectTimer_fires_def
      connectWebSocket_def Let_def)

lemma reconnect_failures_run:
  "isRunning s \<Longrightarrow> reconnectAttempts s + n \<le> maxReconnectAttempts \<Longrightarrow> 0 < n \<Longrightarrow>
   reconnect_failures n s
     = s\<lparr> ws := Connecting, reconnectAttempts := reconnectAttempts s + n,
          reconnectTimer := None \<rparr>"
proof (induction n arbitrary: s)
  case 0
  then show ?case by simp
next
  case (Suc n)
  let ?s1 = "s\<lparr> ws := Connecting, reconnectAttempts := reconnectAttempts s + 1,
                reconnectTimer := None \<rparr>"
  have step: "reconnectTimer_fires (on_close s) = ?s1"
    using Suc.prems by (intro failure_step) simp_all
  show ?case
  proof (cases "n = 0")
    case True
    then show ?thesis using step by simp
  next
    case False
    have "reconnect_failures n ?s1
            = ?s1\<lparr> ws := Connecting, reconnectAttempts := reconnectAttempts ?s1 + n,
                   reconnectTimer := None \<rparr>"
      using Suc.prems False by (intro Suc.IH) simp_all
    then show ?thesis using step by simp
  qed
qed

lemma started_service_eq:
  "started_service =
     \<lparr> ws = Connecting, candleBuffers = [''ETHUSDT'' \<mapsto> [], ''BTCUSDT'' \<mapsto> []],
       dispatched = [], reconnectAttempts = 0, isRunning = True, reconnectTimer = None,
       pollingInterval = True \<rparr>"
  by (simp add: started_service_def start_def new_BinanceService_def bn_symbols_def
      startPollingFallback_def connectWebSocket_def Let_def)

lemma retrying_service_eq:
  "retrying_service =
     \<lparr> ws = Connecting, candleBuffers = [''ETHUSDT'' \<mapsto> [], ''BTCUSDT'' \<mapsto> []],
       dispatched = [], reconnectAttempts = 10, isRunning = True, reconnectTimer = None,
       pollingInterval = True \<rparr>"
  unfolding retrying_service_def
  by (subst reconnect_failures_run)
     (simp_all add: started_service_eq maxReconnectAttempts_def)

text \<open>
  Claim C7 (when the reconnect attempts reach their maximum the stream stops and the
  polling fallback keeps running), evaluated on a started service after ten failed
  reconnections: the service is running, the polling interval is set, and a poll that
  finds a closed candle per symbol dispatches them. The socket closes once more:
  \<open>scheduleReconnect\<close> sets \<open>isRunning\<close> to false and sets no timer. The next firing
  of the polling interval finds \<open>isRunning\<close> false, clears the interval and fetches
  nothing; no later firing does anything.
\<close>
theorem C7_polling_stops_with_the_stream:
  "isRunning retrying_service \<and> pollingInterval retrying_service
   \<and> reconnectAttempts retrying_service = maxReconnectAttempts
   \<and> dispatched (pollTick retrying_service 900000 one_closed_kline)
       = [candle_at 0, (candle_at 0)\<lparr> c_symbol := ''ETHUSDT'' \<rparr>]
   \<and> \<not> isRunning exhausted_service \<and> reconnectTimer exhausted_service = None
   \<and> pollTick exhausted_service 900000 one_closed_kline
       = exhausted_service\<lparr> pollingInterval := False \<rparr>
   \<and> dispatched (pollTick exhausted_service 900000 one_closed_kline) = []
   \<and> pollTick (pollTick exhausted_service 900000 one_closed_kline) 1800000 one_closed_kline
       = pollTick exhausted_service 900000 one_closed_kline"
  by (simp add: exhausted_service_def retrying_service_eq maxReconnectAttempts_def
      on_close_def scheduleReconnect_def pollTick_def pollSymbol_def pollCandle_def
      poll_candle_of_def one_closed_kline_def bn_symbols_def bn_interval_def get_buffer_def
      set_buffer_def push_shift_def notify_callbacks_def bufferSize_def candle_at_def Let_def)

subsection \<open>Candle deduplication\<close>

lemma list_ex_find: "list_ex P xs \<longleftrightarrow> find P xs \<noteq> None"
  by (induction xs) auto

lemma get_buffer_set [simp]:
  "get_buffer (notify_callbacks (set_buffer s symbol b) c) symbol = b"
  by (simp add: get_buffer_def set_buffer_def notify_callbacks_def)

lemma dispatched_notify [simp]:
  "dispatched (notify_callbacks (set_buffer s symbol b) c) = dispatched s @ [c]"
  by (simp add: set_buffer_def notify_callbacks_def)

lemma deliver_fresh:
  assumes "c_isClosed c"
    and "find (\<lambda>x. c_openTime x = c_openTime c) (get_buffer s (c_symbol c)) = None"
  shows "deliver p s c =
           notify_callbacks
             (set_buffer s (c_symbol c) (push_shift (get_buffer s (c_symbol c)) c)) c"
  using assms
  by (cases p) (simp_all add: deliver_def handleKlineMessage_def pollCandle_def list_ex_find Let_def)

lemma deliver_present:
  assumes "c_isClosed c" and "c \<in> set (get_buffer s (c_symbol c))"
  shows "deliver p s c = s"
proof -
  have "find (\<lambda>x. c_openTime x = c_openTime c) (get_buffer s (c_symbol c)) \<noteq> None"
    using assms(2) by (auto simp add: find_None_iff)
  then show ?thesis
    using assms(1)
    by (cases p)
       (auto simp add: deliver_def handleKlineMessage_def pollCandle_def list_ex_find Let_def)
qed

lemma push_shift_member: "c \<in> set (push_shift buffer c)"
  by (cases buffer) (simp_all add: push_shift_def Let_def bufferSize_def)

lemma push_shift_filter:
  assumes "find (\<lambda>x. c_openTime x = c_openTime c) buffer = None"
  shows "filter (\<lambda>x. c_openTime x = c_openTime c) (push_shift buffer c) = [c]"
proof -
  have none: "\<forall>x \<in> set buffer. c_openTime x \<noteq> c_openTime c"
    using assms by (simp add: find_None_iff)
  then have "filter (\<lambda>x. c_openTime x = c_openTime c) buffer = []"
    by (simp add: filter_empty_conv)
  moreover have "filter (\<lambda>x. c_openTime x = c_openTime c) (tl buffer) = []"
    using none by (cases buffer) (simp_all add: filter_empty_conv)
  ultimately show ?thesis
  proof (cases "length (buffer @ [c]) > bufferSize")
    case True
    then have "buffer \<noteq> []" by (auto simp add: bufferSize_def)
    then have "push_shift buffer c = tl buffer @ [c]"
      using True by (simp add: push_shift_def Let_def)
    then show ?thesis
      using \<open>filter (\<lambda>x. c_openTime x = c_openTime c) (tl buffer) = []\<close> by simp
  next
    case False
    then have "push_shift buffer c = buffer @ [c]"
      by (simp add: push_shift_def Let_def)
    then show ?thesis
      using \<open>filter (\<lambda>x. c_openTime x = c_openTime c) buffer = []\<close> by simp
  qed
qed

lemma redeliveries_dropped:
  assumes "c_isClosed c" and "c \<in> set (get_buffer s (c_symbol c))"
  shows "foldl (\<lambda>s p. deliver p s c) s ps = s"
  using assms by (induction ps) (simp_all add: deliver_present)

lemma dispatch_count_append:
  "dispatch_count (s\<lparr> dispatched := dispatched s @ [c] \<rparr>) symbol openTime
     = dispatch_count s symbol openTime
       + (if c_symbol c = symbol \<and> c_openTime c = openTime then 1 else 0)"
  by (simp add: dispatch_count_def)

text \<open>
  What the lookup in the buffer does achieve: a closed candle that arrives, by either
  path, while its symbol's buffer holds no entry with its open time is appended once (it
  is then the only entry with that open time) and dispatched once; a closed candle that
  arrives, by either path, while it is in the buffer changes nothing; so after that first
  arrival, any further deliveries of it in a row, by any combination of the two paths,
  leave one append and one dispatch.
\<close>
lemma dedup_while_buffered:
  assumes "c_isClosed c"
  shows "(find (\<lambda>x. c_openTime x = c_openTime c) (get_buffer s (c_symbol c)) = None \<longrightarrow>
            get_buffer (deliver p s c) (c_symbol c) = push_shift (get_buffer s (c_symbol c)) c
          \<and> filter (\<lambda>x. c_openTime x = c_openTime c) (get_buffer (deliver p s c) (c_symbol c)) = [c]
          \<and> dispatched (deliver p s c) = dispatched s @ [c]
          \<and> foldl (\<lambda>s p. deliver p s c) (deliver p s c) ps = deliver p s c
          \<and> dispatch_count (foldl (\<lambda>s p. deliver p s c) s (p # ps)) (c_symbol c) (c_openTime c)
              = dispatch_count s (c_symbol c) (c_openTime c) + 1)
       \<and> (c \<in> set (get_buffer s (c_symbol c)) \<longrightarrow>
            deliver p s c = s \<and> foldl (\<lambda>s p. deliver p s c) s ps = s)"
proof -
  have fresh: "find (\<lambda>x. c_openTime x = c_openTime c) (get_buffer s (c_symbol c)) = None \<longrightarrow>
            get_buffer (deliver p s c) (c_symbol c) = push_shift (get_buffer s (c_symbol c)) c
          \<and> filter (\<lambda>x. c_openTime x = c_openTime c) (get_buffer (deliver p s c) (c_symbol c)) = [c]
          \<and> dispatched (deliver p s c) = dispatched s @ [c]
          \<and> foldl (\<lambda>s p. deliver p s c) (deliver p s c) ps = deliver p s c
          \<and> dispatch_count (foldl (\<lambda>s p. deliver p s c) s (p # ps)) (c_symbol c) (c_openTime c)
              = dispatch_count s (c_symbol c) (c_openTime c) + 1"
  proof
    assume none: "find (\<lambda>x. c_openTime x = c_openTime c) (get_buffer s (c_symbol c)) = None"
    let ?s1 = "deliver p s c"
    have eq: "?s1 = notify_callbacks
                (set_buffer s (c_symbol c) (push_shift (get_buffer s (c_symbol c)) c)) c"
      using assms none by (rule deliver_fresh)
    have buf: "get_buffer ?s1 (c_symbol c) = push_shift (get_buffer s (c_symbol c)) c"
      unfolding eq by simp
    have disp: "dispatched ?s1 = dispatched s @ [c]"
      unfolding eq by simp
    have "c \<in> set (get_buffer ?s1 (c_symbol c))"
      unfolding buf by (rule push_shift_member)
    then have again: "foldl (\<lambda>s p. deliver p s c) ?s1 ps = ?s1"
      using assms by (intro redeliveries_dropped)
    have count: "dispatch_count ?s1 (c_symbol c) (c_openTime c)
                   = dispatch_count s (c_symbol c) (c_openTime c) + 1"
      by (simp add: dispatch_count_def disp)
    show "get_buffer ?s1 (c_symbol c) = push_shift (get_buffer s (c_symbol c)) c
          \<and> filter (\<lambda>x. c_openTime x = c_openTime c) (get_buffer ?s1 (c_symbol c)) = [c]
          \<and> dispatched ?s1 = dispatched s @ [c]
          \<and> foldl (\<lambda>s p. deliver p s c) ?s1 ps = ?s1
          \<and> dispatch_count (foldl (\<lambda>s p. deliver p s c) s (p # ps)) (c_symbol c) (c_openTime c)
              = dispatch_count s (c_symbol c) (c_openTime c) + 1"
      using buf disp again count push_shift_filter [OF none] by simp
  qed
  have present: "c \<in> set (get_buffer s (c_symbol c)) \<longrightarrow>
            deliver p s c = s \<and> foldl (\<lambda>s p. deliver p s c) s ps = s"
    using assms by (simp add: deliver_present redeliveries_dropped)
  from fresh present show ?thesis by blast
qed

lemma distinct_map_drop_append:
  assumes "distinct (map f (ys @ cs))"
  shows "distinct (map f (drop k ys @ cs))"
proof -
  have d1: "distinct (map f ys)" and d2: "distinct (map f cs)"
    and d3: "f ` set ys \<inter> f ` set cs = {}"
    using assms by simp_all
  have "distinct (drop k (map f ys))"
    using d1 by (rule distinct_drop)
  then have e1: "distinct (map f (drop k ys))"
    by (simp only: drop_map)
  have "f ` set (drop k ys) \<subseteq> f ` set ys"
    by (rule image_mono) (rule set_drop_subset)
  then have e3: "f ` set (drop k ys) \<inter> f ` set cs = {}"
    using d3 by blast
  show ?thesis
    using e1 d2 e3 by simp
qed

lemma foldl_deliver_fresh:
  "\<forall>c \<in> set cs. c_isClosed c \<and> c_symbol c = symbol \<Longrightarrow>
   distinct (map c_openTime (get_buffer s symbol @ cs)) \<Longrightarrow>
   length (get_buffer s symbol) \<le> bufferSize \<Longrightarrow>
   get_buffer (foldl (deliver p) s cs) symbol
     = drop (length (get_buffer s symbol @ cs) - bufferSize) (get_buffer s symbol @ cs)
   \<and> dispatched (foldl (deliver p) s cs) = dispatched s @ cs"
proof (induction cs arbitrary: s)
  case Nil
  then show ?case by simp
next
  case (Cons c cs)
  let ?buf = "get_buffer s symbol"
  let ?s1 = "deliver p s c"
  have c: "c_isClosed c" "c_symbol c = symbol" using Cons.prems(1) by simp_all
  have nin: "c_openTime c \<notin> c_openTime ` set ?buf"
    using Cons.prems(2) by auto
  have "\<forall>x \<in> set ?buf. c_openTime x \<noteq> c_openTime c"
  proof (intro ballI notI)
    fix x
    assume "x \<in> set ?buf" and "c_openTime x = c_openTime c"
    then have "c_openTime c \<in> c_openTime ` set ?buf"
      by (metis imageI)
    with nin show False by contradiction
  qed
  then have none: "find (\<lambda>x. c_openTime x = c_openTime c) (get_buffer s (c_symbol c)) = None"
    unfolding c(2) by (simp add: find_None_iff)
  have eq: "?s1 = notify_callbacks
              (set_buffer s (c_symbol c) (push_shift (get_buffer s (c_symbol c)) c)) c"
    using c(1) none by (rule deliver_fresh)
  have buf1: "get_buffer ?s1 symbol = push_shift ?buf c"
    using c(2) unfolding eq by simp
  have disp1: "dispatched ?s1 = dispatched s @ [c]"
    unfolding eq by simp
  have shape: "push_shift ?buf c = drop (length (?buf @ [c]) - bufferSize) (?buf @ [c])"
  proof (cases "length (?buf @ [c]) > bufferSize")
    case True
    then have l: "length ?buf = bufferSize"
      using Cons.prems(3) by simp
    then obtain a rest where al: "?buf = a # rest"
      by (cases ?buf) (auto simp add: bufferSize_def)
    have "push_shift ?buf c = rest @ [c]"
      using True by (simp add: push_shift_def Let_def al)
    moreover have "length (?buf @ [c]) - bufferSize = Suc 0"
      using l by simp
    ultimately show ?thesis
      by (simp add: al)
  next
    case False
    then show ?thesis by (simp add: push_shift_def Let_def)
  qed
  have len1: "length (push_shift ?buf c) \<le> bufferSize"
    unfolding shape by simp
  have "set (push_shift ?buf c) \<subseteq> set (?buf @ [c])"
    unfolding shape by (rule set_drop_subset)
  have dist1: "distinct (map c_openTime (push_shift ?buf c @ cs))"
  proof -
    have "distinct (map c_openTime ((?buf @ [c]) @ cs))"
      using Cons.prems(2) by simp
    then show ?thesis
      unfolding shape by (rule distinct_map_drop_append)
  qed
  have ih: "get_buffer (foldl (deliver p) ?s1 cs) symbol
              = drop (length (get_buffer ?s1 symbol @ cs) - bufferSize)
                  (get_buffer ?s1 symbol @ cs)
            \<and> dispatched (foldl (deliver p) ?s1 cs) = dispatched ?s1 @ cs"
    using Cons.prems(1) dist1 len1 by (intro Cons.IH) (simp_all add: buf1)
  have "drop (length (push_shift ?buf c @ cs) - bufferSize) (push_shift ?buf c @ cs)
          = drop (length (?buf @ c # cs) - bufferSize) (?buf @ c # cs)"
  proof (cases "length (?buf @ [c]) > bufferSize")
    case True
    then have l: "length ?buf = bufferSize"
      using Cons.prems(3) by simp
    then obtain a rest where al: "?buf = a # rest"
      by (cases ?buf) (auto simp add: bufferSize_def)
    have ps: "push_shift ?buf c = rest @ [c]"
      using True by (simp add: push_shift_def Let_def al)
    have ps2: "push_shift (a # rest) c = rest @ [c]"
      using ps unfolding al .
    have n1: "length (push_shift ?buf c @ cs) - bufferSize = length cs"
      using l by (simp add: al ps2)
    have n2: "length (?buf @ c # cs) - bufferSize = Suc (length cs)"
      using l by simp
    show ?thesis
      unfolding n1 n2 by (simp add: al ps2)
  next
    case False
    then show ?thesis by (simp add: push_shift_def Let_def)
  qed
  then show ?case
    using ih by (simp add: buf1 disp1)
qed

lemma later_candles_facts:
  "length later_candles = 200"
  "\<forall>c \<in> set later_candles. c_isClosed c \<and> c_symbol c = ''BTCUSDT''"
  "\<forall>c \<in> set later_candles. c_openTime c \<noteq> 0"
  "distinct (map c_openTime (candle_at 0 # later_candles))"
  by (auto simp add: later_candles_def candle_at_def distinct_map comp_def inj_on_def)

lemma first_delivery:
  "deliver Push new_BinanceService (candle_at 0)
     = new_BinanceService\<lparr> candleBuffers := (candleBuffers new_BinanceService)
                               (''BTCUSDT'' \<mapsto> [candle_at 0]),
                            dispatched := [candle_at 0] \<rparr>"
  by (simp add: deliver_def handleKlineMessage_def new_BinanceService_def bn_symbols_def
      get_buffer_def set_buffer_def notify_callbacks_def push_shift_def bufferSize_def
      candle_at_def Let_def)

lemma evicted_run_dispatched:
  "dispatched evicted_run = candle_at 0 # later_candles @ [candle_at 0]"
proof -
  let ?s1 = "deliver Push new_BinanceService (candle_at 0)"
  let ?s2 = "foldl (deliver Push) ?s1 later_candles"
  have b1: "get_buffer ?s1 ''BTCUSDT'' = [candle_at 0]" and d1: "dispatched ?s1 = [candle_at 0]"
    by (simp_all add: first_delivery get_buffer_def)
  have "get_buffer ?s2 ''BTCUSDT''
          = drop (length (get_buffer ?s1 ''BTCUSDT'' @ later_candles) - bufferSize)
              (get_buffer ?s1 ''BTCUSDT'' @ later_candles)
        \<and> dispatched ?s2 = dispatched ?s1 @ later_candles"
    using later_candles_facts
    by (intro foldl_deliver_fresh) (simp_all add: b1 bufferSize_def)
  then have b2: "get_buffer ?s2 ''BTCUSDT'' = later_candles"
    and d2: "dispatched ?s2 = candle_at 0 # later_candles"
    by (simp_all add: b1 d1 later_candles_facts(1) bufferSize_def)
  have sym: "c_symbol (candle_at 0) = ''BTCUSDT''" and cl: "c_isClosed (candle_at 0)"
    and t0: "c_openTime (candle_at 0) = 0"
    by (simp_all add: candle_at_def)
  have none: "find (\<lambda>x. c_openTime x = c_openTime (candle_at 0))
                (get_buffer ?s2 (c_symbol (candle_at 0))) = None"
    using later_candles_facts(3) by (simp add: sym t0 b2 find_None_iff)
  have "dispatched (deliver Poll ?s2 (candle_at 0)) = dispatched ?s2 @ [candle_at 0]"
    unfolding deliver_fresh [OF cl none] by simp
  then show ?thesis
    by (simp add: evicted_run_def d2)
qed

text \<open>
  The lookup lasts as long as the buffer holds the candle. On a new service the closed
  candle that opened at 0 is delivered and dispatched once; the 200 closed candles that follow it are delivered, which evicts
  it from the buffer of 200; delivered again, it is dispatched a second time.
\<close>
lemma redelivery_after_eviction:
  "c_isClosed (candle_at 0)
   \<and> dispatch_count new_BinanceService ''BTCUSDT'' 0 = 0
   \<and> dispatch_count (deliver Push new_BinanceService (candle_at 0)) ''BTCUSDT'' 0 = 1
   \<and> dispatch_count evicted_run ''BTCUSDT'' 0 = 2"
proof -
  have "filter (\<lambda>c. c_symbol c = ''BTCUSDT'' \<and> c_openTime c = 0) later_candles = []"
    using later_candles_facts(3) by (simp add: filter_empty_conv)
  then have "dispatch_count evicted_run ''BTCUSDT'' 0 = 2"
    by (simp add: dispatch_count_def evicted_run_dispatched) (simp add: candle_at_def)
  moreover have "dispatch_count (deliver Push new_BinanceService (candle_at 0)) ''BTCUSDT'' 0 = 1"
    by (simp add: dispatch_count_def first_delivery) (simp add: candle_at_def)
  moreover have "dispatch_count new_BinanceService ''BTCUSDT'' 0 = 0"
    by (simp add: dispatch_count_def new_BinanceService_def)
  moreover have "c_isClosed (candle_at 0)" by (simp add: candle_at_def)
  ultimately show ?thesis by simp
qed

lemma dedup_while_buffered_example:
  "c_isClosed (candle_at 0)
   \<and> find (\<lambda>x. c_openTime x = c_openTime (candle_at 0))
       (get_buffer new_BinanceService (c_symbol (candle_at 0))) = None
   \<and> get_buffer (deliver Push new_BinanceService (candle_at 0)) ''BTCUSDT'' = [candle_at 0]
   \<and> dispatched (foldl (\<lambda>s p. deliver p s (candle_at 0)) new_BinanceService [Push, Poll, Push])
       = [candle_at 0]
   \<and> dispatch_count (foldl (\<lambda>s p. deliver p s (candle_at 0)) new_BinanceService [Push, Poll, Push])
        ''BTCUSDT'' 0 = 1"
proof -
  have cl: "c_isClosed (candle_at 0)" by (simp add: candle_at_def)
  have sym: "c_symbol (candle_at 0) = ''BTCUSDT''" "c_openTime (candle_at 0) = 0"
    by (simp_all add: candle_at_def)
  have none: "find (\<lambda>x. c_openTime x = c_openTime (candle_at 0))
       (get_buffer new_BinanceService (c_symbol (candle_at 0))) = None"
    by (simp add: sym get_buffer_def new_BinanceService_def bn_symbols_def)
  have d0: "dispatched new_BinanceService = []"
    "dispatch_count new_BinanceService ''BTCUSDT'' 0 = 0"
    by (simp_all add: new_BinanceService_def dispatch_count_def)
  have b: "get_buffer (deliver Push new_BinanceService (candle_at 0)) ''BTCUSDT'' = [candle_at 0]"
    by (simp add: first_delivery get_buffer_def)
  note facts = dedup_while_buffered [OF cl, where s = new_BinanceService and p = Push
         and ps = "[Poll, Push]", THEN conjunct1, THEN mp, OF none]
  let ?run = "foldl (\<lambda>s p. deliver p s (candle_at 0)) new_BinanceService [Push, Poll, Push]"
  have f3: "dispatched (deliver Push new_BinanceService (candle_at 0))
              = dispatched new_BinanceService @ [candle_at 0]"
    using facts by blast
  have f4: "foldl (\<lambda>s p. deliver p s (candle_at 0))
              (deliver Push new_BinanceService (candle_at 0)) [Poll, Push]
              = deliver Push new_BinanceService (candle_at 0)"
    using facts by blast
  have f5: "dispatch_count
              (foldl (\<lambda>s p. deliver p s (candle_at 0)) new_BinanceService (Push # [Poll, Push]))
              (c_symbol (candle_at 0)) (c_openTime (candle_at 0))
              = dispatch_count new_BinanceService (c_symbol (candle_at 0))
                  (c_openTime (candle_at 0)) + 1"
    using facts by blast
  have run: "?run = deliver Push new_BinanceService (candle_at 0)"
    using f4 by simp
  have r1: "dispatched ?run = [candle_at 0]"
    unfolding run f3 by (simp add: d0)
  have r2: "dispatch_count ?run ''BTCUSDT'' 0 = 1"
    using f5 unfolding sym d0 by simp
  from cl none b r1 r2 show ?thesis by blast
qed

text \<open>
  Claim C6 (a closed candle delivered more than once is appended once and dispatched
  once), evaluated on the ordinary feed: the in-progress candle that opened at 0 has
  arrived and is in the buffer, nothing is dispatched yet. Both paths look the open time
  up among all the entries of the buffer, closed or not; so the closed candle of the same
  open time is dropped on its first arrival and on every later one, by either path: it is
  never appended and never dispatched, and the buffer keeps the in-progress candle.
\<close>
theorem C6_closed_candle_dropped_after_in_progress:
  "c_isClosed (candle_at 0)
   \<and> c_symbol in_progress_candle = c_symbol (candle_at 0)
   \<and> c_openTime in_progress_candle = c_openTime (candle_at 0)
   \<and> get_buffer watching_service ''BTCUSDT'' = [in_progress_candle]
   \<and> dispatched watching_service = []
   \<and> deliver Push watching_service (candle_at 0) = watching_service
   \<and> deliver Poll watching_service (candle_at 0) = watching_service
   \<and> dispatch_count (deliver Poll (deliver Push watching_service (candle_at 0)) (candle_at 0))
        ''BTCUSDT'' 0 = 0"
  by (simp add: watching_service_def in_progress_candle_def deliver_def handleKlineMessage_def
      pollCandle_def new_BinanceService_def bn_symbols_def get_buffer_def set_buffer_def
      notify_callbacks_def push_shift_def bufferSize_def candle_at_def dispatch_count_def
      Let_def)

end
